theory Spec2Isabelle
  imports Main "HOL-Library.Sublist"
begin

section \<open>JavaScript strings, errors and results\<close>

text \<open>
  JavaScript strings are modelled as HOL strings: one \<^typ>\<open>char\<close> per code unit, the code
  units being those of Latin-1 (U+0000 to U+00FF). The three string predicates of the
  source are the list notions of the library.
\<close>

definition startsWith :: "string \<Rightarrow> string \<Rightarrow> bool" where
  "startsWith s p = prefix p s"

definition endsWith :: "string \<Rightarrow> string \<Rightarrow> bool" where
  "endsWith s p = suffix p s"

definition includes_str :: "string \<Rightarrow> string \<Rightarrow> bool" where
  "includes_str s p = sublist p s"

text \<open>
  \<^verbatim>\<open>toLowerCase\<close>: on Latin-1 the capitals are A to Z and U+00C0 to U+00DE without the
  multiplication sign U+00D7; each is 32 below its small letter.
\<close>

definition lower_char :: "char \<Rightarrow> char" where
  "lower_char c =
     (let n = (of_char c :: nat)
      in if (65 \<le> n \<and> n \<le> 90) \<or> (192 \<le> n \<and> n \<le> 222 \<and> n \<noteq> 215)
         then char_of (n + 32) else c)"

definition toLowerCase :: "string \<Rightarrow> string" where
  "toLowerCase s = map lower_char s"

text \<open>
  A thrown value is an error object with its name and message. A computation that can
  throw returns \<open>Inl\<close> of the error or \<open>Inr\<close> of its value.
\<close>

datatype js_error = JSError (error_name: string) (message: string)

abbreviation Error :: "string \<Rightarrow> js_error" where
  "Error msg \<equiv> JSError ''Error'' msg"

abbreviation TypeError :: "string \<Rightarrow> js_error" where
  "TypeError msg \<equiv> JSError ''TypeError'' msg"

text \<open>
  Parameters, secrets and environment values are strings, as the source documents them;
  an object of such values is a map from property names, and a missing property reads as
  \<open>None\<close> (\<^verbatim>\<open>undefined\<close>).
\<close>

type_synonym strobj = "string \<rightharpoonup> string"

definition truthy_str :: "string option \<Rightarrow> bool" where
  "truthy_str v = (case v of None \<Rightarrow> False | Some s \<Rightarrow> s \<noteq> [])"

text \<open>\<^verbatim>\<open>a || b\<close> on optional strings.\<close>

definition or_str :: "string option \<Rightarrow> string option \<Rightarrow> string option" where
  "or_str a b = (if truthy_str a then a else b)"

text \<open>\<^verbatim>\<open>obj || {}\<close> on an optional object.\<close>

definition or_empty :: "strobj option \<Rightarrow> strobj" where
  "or_empty obj = (case obj of None \<Rightarrow> Map.empty | Some e \<Rightarrow> e)"

record exec_context =
  environment :: "strobj option"
  secrets :: "strobj option"

section \<open>The base URL\<close>

text \<open>
  \<^verbatim>\<open>getBaseURL(params, context)\<close>; \<^verbatim>\<open>params?.address\<close> tolerates missing params, and
  \<^verbatim>\<open>address.slice(0, -1)\<close> drops the last code unit.
\<close>

definition no_url_specified :: string where
  "no_url_specified = ''No URL specified. Provide address parameter or ADDRESS environment variable''"

definition getBaseURL :: "strobj option \<Rightarrow> exec_context \<Rightarrow> js_error + string" where
  "getBaseURL params ctx =
     (let env = or_empty (environment ctx);
          address = or_str (case params of None \<Rightarrow> None | Some p \<Rightarrow> p ''address'')
                           (env ''ADDRESS'')
      in case address of
           None \<Rightarrow> Inl (Error no_url_specified)
         | Some a \<Rightarrow>
             if a = [] then Inl (Error no_url_specified)
             else Inr (if endsWith a ''/'' then take (length a - 1) a else a))"

section \<open>JSON values\<close>

text \<open>
  What \<^verbatim>\<open>response.json()\<close> yields and what the entry points return: JSON values and
  \<^verbatim>\<open>undefined\<close>. An object is the list of its own properties in enumeration order, each
  name bound once. A number is held as JavaScript prints it, in its decimal form with
  \<^verbatim>\<open>0\<close> for zero and \<^verbatim>\<open>NaN\<close> for what is not a number: the program sees of a number only
  whether it is truthy, whether it is zero and how it prints, and the print tells all
  three.
\<close>

datatype jsval =
    JUndefined
  | JNull
  | JBool bool
  | JNum string
  | JStr string
  | JArr "jsval list"
  | JObj "(string \<times> jsval) list"

fun truthy :: "jsval \<Rightarrow> bool" where
  "truthy JUndefined = False"
| "truthy JNull = False"
| "truthy (JBool b) = b"
| "truthy (JNum n) = (n \<noteq> ''0'' \<and> n \<noteq> ''NaN'')"
| "truthy (JStr s) = (s \<noteq> [])"
| "truthy (JArr xs) = True"
| "truthy (JObj ps) = True"

definition js_of :: "string option \<Rightarrow> jsval" where
  "js_of v = (case v of None \<Rightarrow> JUndefined | Some s \<Rightarrow> JStr s)"

text \<open>\<^verbatim>\<open>a || b\<close> on values.\<close>

definition or_val :: "jsval \<Rightarrow> jsval \<Rightarrow> jsval" where
  "or_val a b = (if truthy a then a else b)"

text \<open>Decimal digits of a natural number, as JavaScript prints a length or a status code.\<close>

fun show_nat :: "nat \<Rightarrow> string" where
  "show_nat n =
     (if n < 10 then [char_of (48 + n)]
      else show_nat (n div 10) @ [char_of (48 + n mod 10)])"

definition cannot_read :: "string \<Rightarrow> string \<Rightarrow> js_error" where
  "cannot_read v k =
     TypeError (''Cannot read properties of '' @ v @ '' (reading '' @ [CHR 0x27] @ k @ [CHR 0x27] @ '')'')"

text \<open>
  Reading a property, \<^verbatim>\<open>v.k\<close> or \<^verbatim>\<open>v[0]\<close>, for the names the program reads: \<^verbatim>\<open>records\<close>,
  \<^verbatim>\<open>length\<close>, \<^verbatim>\<open>0\<close>, \<^verbatim>\<open>Id\<close>, \<^verbatim>\<open>id\<close>, \<^verbatim>\<open>errorCode\<close>, \<^verbatim>\<open>message\<close>, \<^verbatim>\<open>access_token\<close>, \<^verbatim>\<open>reason\<close>
  and \<^verbatim>\<open>username\<close>. Of
  these only \<^verbatim>\<open>length\<close> and the index exist on arrays and strings, and none exists on
  booleans, numbers or the prototype of objects. Reading from \<^verbatim>\<open>undefined\<close> or \<^verbatim>\<open>null\<close>
  throws.
\<close>

fun getprop :: "jsval \<Rightarrow> string \<Rightarrow> js_error + jsval" where
  "getprop JUndefined k = Inl (cannot_read ''undefined'' k)"
| "getprop JNull k = Inl (cannot_read ''null'' k)"
| "getprop (JBool b) k = Inr JUndefined"
| "getprop (JNum n) k = Inr JUndefined"
| "getprop (JStr s) k =
     Inr (if k = ''length'' then JNum (show_nat (length s))
          else if k = ''0'' then (case s of [] \<Rightarrow> JUndefined | c # _ \<Rightarrow> JStr [c])
          else JUndefined)"
| "getprop (JArr xs) k =
     Inr (if k = ''length'' then JNum (show_nat (length xs))
          else if k = ''0'' then (case xs of [] \<Rightarrow> JUndefined | x # _ \<Rightarrow> x)
          else JUndefined)"
| "getprop (JObj ps) k = Inr (case map_of ps k of None \<Rightarrow> JUndefined | Some v \<Rightarrow> v)"

text \<open>
  \<^verbatim>\<open>${v}\<close> in a template literal. An array prints its elements joined by commas, with
  \<^verbatim>\<open>null\<close> and \<^verbatim>\<open>undefined\<close> elements empty. An object prints through the inherited
  \<^verbatim>\<open>toString\<close>; an own property of that name, which no JSON value can make callable,
  leaves the conversion without a primitive and it throws.
\<close>

fun join_strs :: "string list \<Rightarrow> string" where
  "join_strs [] = []"
| "join_strs [s] = s"
| "join_strs (s # t # ss) = s @ '','' @ join_strs (t # ss)"

fun to_string :: "jsval \<Rightarrow> js_error + string"
  and to_strings :: "jsval list \<Rightarrow> js_error + string list" where
  "to_string JUndefined = Inr ''undefined''"
| "to_string JNull = Inr ''null''"
| "to_string (JBool b) = Inr (if b then ''true'' else ''false'')"
| "to_string (JNum n) = Inr n"
| "to_string (JStr s) = Inr s"
| "to_string (JArr xs) =
     (case to_strings xs of Inl e \<Rightarrow> Inl e | Inr ss \<Rightarrow> Inr (join_strs ss))"
| "to_string (JObj ps) =
     (if ''toString'' \<in> set (map fst ps)
      then Inl (TypeError ''Cannot convert object to primitive value'')
      else Inr ''[object Object]'')"
| "to_strings [] = Inr []"
| "to_strings (x # xs) =
     (case (if x = JUndefined \<or> x = JNull then Inr [] else to_string x) of
        Inl e \<Rightarrow> Inl e
      | Inr s \<Rightarrow> (case to_strings xs of Inl e \<Rightarrow> Inl e | Inr ss \<Rightarrow> Inr (s # ss)))"

text \<open>Template printing of an optional string: a missing one prints as \<^verbatim>\<open>undefined\<close>.\<close>

definition show_str :: "string option \<Rightarrow> string" where
  "show_str v = (case v of None \<Rightarrow> ''undefined'' | Some s \<Rightarrow> s)"

section \<open>Encodings of the platform\<close>

definition hex_upper :: "nat \<Rightarrow> char" where
  "hex_upper d = (if d < 10 then char_of (48 + d) else char_of (55 + d))"

definition hex_lower :: "nat \<Rightarrow> char" where
  "hex_lower d = (if d < 10 then char_of (48 + d) else char_of (87 + d))"

definition percent_byte :: "nat \<Rightarrow> string" where
  "percent_byte b = [CHR ''%'', hex_upper (b div 16), hex_upper (b mod 16)]"

text \<open>The UTF-8 bytes of a Latin-1 code unit.\<close>

definition utf8_bytes :: "char \<Rightarrow> nat list" where
  "utf8_bytes c =
     (let n = (of_char c :: nat)
      in if n < 128 then [n] else [192 + n div 64, 128 + n mod 64])"

definition is_alnum :: "char \<Rightarrow> bool" where
  "is_alnum c =
     (let n = (of_char c :: nat)
      in (48 \<le> n \<and> n \<le> 57) \<or> (65 \<le> n \<and> n \<le> 90) \<or> (97 \<le> n \<and> n \<le> 122))"

text \<open>\<^verbatim>\<open>encodeURIComponent\<close> keeps letters, digits and \<^verbatim>\<open>- _ . ! ~ * ' ( )\<close>.\<close>

definition encodeURIComponent :: "string \<Rightarrow> string" where
  "encodeURIComponent s =
     concat (map (\<lambda>c. if is_alnum c \<or> c \<in> set (''-_.!~*()'' @ [CHR 0x27]) then [c]
                         else concat (map percent_byte (utf8_bytes c))) s)"

text \<open>
  \<^verbatim>\<open>URLSearchParams.toString()\<close>: the form encoding keeps letters, digits and \<^verbatim>\<open>* - . _\<close>,
  and writes a space as a plus sign.
\<close>

definition form_component :: "string \<Rightarrow> string" where
  "form_component s =
     concat (map (\<lambda>c. if is_alnum c \<or> c \<in> set ''*-._'' then [c]
                         else if c = CHR '' '' then ''+''
                         else concat (map percent_byte (utf8_bytes c))) s)"

fun join_amp :: "string list \<Rightarrow> string" where
  "join_amp [] = []"
| "join_amp [s] = s"
| "join_amp (s # t # ss) = s @ ''&'' @ join_amp (t # ss)"

definition URLSearchParams_toString :: "(string \<times> string) list \<Rightarrow> string" where
  "URLSearchParams_toString ps =
     join_amp (map (\<lambda>(k, v). form_component k @ ''='' @ form_component v) ps)"

text \<open>\<^verbatim>\<open>btoa\<close>: Base64 of the code units, with padding.\<close>

definition b64_char :: "nat \<Rightarrow> char" where
  "b64_char i =
     (if i < 26 then char_of (65 + i)
      else if i < 52 then char_of (71 + i)
      else if i < 62 then char_of (i - 4)
      else if i = 62 then CHR ''+'' else CHR ''/'')"

fun b64_bytes :: "nat list \<Rightarrow> string" where
  "b64_bytes (a # b # c # rest) =
     [b64_char (a div 4), b64_char ((a mod 4) * 16 + b div 16),
      b64_char ((b mod 16) * 4 + c div 64), b64_char (c mod 64)] @ b64_bytes rest"
| "b64_bytes [a, b] =
     [b64_char (a div 4), b64_char ((a mod 4) * 16 + b div 16),
      b64_char ((b mod 16) * 4), CHR ''='']"
| "b64_bytes [a] = [b64_char (a div 4), b64_char ((a mod 4) * 16), CHR ''='', CHR ''='']"
| "b64_bytes [] = []"

definition btoa :: "string \<Rightarrow> string" where
  "btoa s = b64_bytes (map of_char s)"

text \<open>\<^verbatim>\<open>JSON.stringify\<close>; \<open>None\<close> is its result \<^verbatim>\<open>undefined\<close>.\<close>

definition json_escape :: "char \<Rightarrow> string" where
  "json_escape c =
     (let n = (of_char c :: nat)
      in if n = 34 then [CHR 0x5C, CHR 0x22]
         else if n = 92 then [CHR 0x5C, CHR 0x5C]
         else if n = 8 then [CHR 0x5C, CHR ''b'']
         else if n = 12 then [CHR 0x5C, CHR ''f'']
         else if n = 10 then [CHR 0x5C, CHR ''n'']
         else if n = 13 then [CHR 0x5C, CHR ''r'']
         else if n = 9 then [CHR 0x5C, CHR ''t'']
         else if n < 32 then [CHR 0x5C, CHR ''u'', CHR ''0'', CHR ''0'', hex_lower (n div 16), hex_lower (n mod 16)]
         else [c])"

definition json_quote :: "string \<Rightarrow> string" where
  "json_quote s = [CHR 0x22] @ concat (map json_escape s) @ [CHR 0x22]"

fun JSON_stringify :: "jsval \<Rightarrow> string option"
  and stringify_items :: "jsval list \<Rightarrow> string list"
  and stringify_props :: "(string \<times> jsval) list \<Rightarrow> string list" where
  "JSON_stringify JUndefined = None"
| "JSON_stringify JNull = Some ''null''"
| "JSON_stringify (JBool b) = Some (if b then ''true'' else ''false'')"
| "JSON_stringify (JNum n) = Some n"
| "JSON_stringify (JStr s) = Some (json_quote s)"
| "JSON_stringify (JArr xs) = Some (''['' @ join_strs (stringify_items xs) @ '']'')"
| "JSON_stringify (JObj ps) = Some (''{'' @ join_strs (stringify_props ps) @ ''}'')"
| "stringify_items [] = []"
| "stringify_items (x # xs) =
     (case JSON_stringify x of None \<Rightarrow> ''null'' | Some t \<Rightarrow> t) # stringify_items xs"
| "stringify_props [] = []"
| "stringify_props ((k, v) # ps) =
     (case JSON_stringify v of
        None \<Rightarrow> stringify_props ps
      | Some t \<Rightarrow> (json_quote k @ '':'' @ t) # stringify_props ps)"

section \<open>HTTP and the promise of a result\<close>

record request =
  url :: string
  http_method :: string
  headers :: "(string \<times> string) list"
  body :: "string option"

text \<open>
  A response carries what the program reads of it: \<^verbatim>\<open>ok\<close>, \<^verbatim>\<open>status\<close>, \<^verbatim>\<open>statusText\<close> and
  the outcomes of \<^verbatim>\<open>json()\<close> and \<^verbatim>\<open>text()\<close>, each a value or the error it rejects with.
\<close>

record response =
  ok :: bool
  status :: nat
  statusText :: string
  json :: "js_error + jsval"
  body_text :: "js_error + string"

text \<open>
  The network answers a request, given the requests sent before it, with a response or
  with the error \<^verbatim>\<open>fetch\<close> rejects with. An asynchronous computation takes the requests
  sent so far and returns its outcome with the requests sent by its end.
\<close>

type_synonym network = "request list \<Rightarrow> request \<Rightarrow> js_error + response"

type_synonym 'a io = "request list \<Rightarrow> (js_error + 'a) \<times> request list"

definition return_io :: "'a \<Rightarrow> 'a io" where
  "return_io x = (\<lambda>sent. (Inr x, sent))"

definition throw_io :: "js_error \<Rightarrow> 'a io" where
  "throw_io e = (\<lambda>sent. (Inl e, sent))"

definition await :: "js_error + 'a \<Rightarrow> 'a io" where
  "await r = (\<lambda>sent. (r, sent))"

definition bind_io :: "'a io \<Rightarrow> ('a \<Rightarrow> 'b io) \<Rightarrow> 'b io" where
  "bind_io m f =
     (\<lambda>sent. case m sent of (Inl e, sent') \<Rightarrow> (Inl e, sent') | (Inr x, sent') \<Rightarrow> f x sent')"

definition fetch :: "network \<Rightarrow> request \<Rightarrow> response io" where
  "fetch net req = (\<lambda>sent. (net sent req, sent @ [req]))"

section \<open>Authentication\<close>

record oauth_config =
  tokenUrl :: "string option"
  clientId :: "string option"
  clientSecret :: "string option"
  scope :: "string option"
  audience :: "string option"
  authStyle :: "string option"

definition getClientCredentialsToken :: "network \<Rightarrow> oauth_config \<Rightarrow> jsval io" where
  "getClientCredentialsToken net config =
     (if \<not> truthy_str (tokenUrl config) \<or> \<not> truthy_str (clientId config)
         \<or> \<not> truthy_str (clientSecret config)
      then throw_io (Error ''OAuth2 Client Credentials flow requires tokenUrl, clientId, and clientSecret'')
      else
        let in_params = (authStyle config = Some ''InParams'');
            params =
              [(''grant_type'', ''client_credentials'')]
              @ (if truthy_str (scope config) then [(''scope'', show_str (scope config))] else [])
              @ (if truthy_str (audience config) then [(''audience'', show_str (audience config))]
                 else [])
              @ (if in_params
                 then [(''client_id'', show_str (clientId config)),
                       (''client_secret'', show_str (clientSecret config))]
                 else []);
            credentials = btoa (show_str (clientId config) @ '':'' @ show_str (clientSecret config));
            hdrs =
              [(''Content-Type'', ''application/x-www-form-urlencoded''),
               (''Accept'', ''application/json'')]
              @ (if in_params then [] else [(''Authorization'', ''Basic '' @ credentials)])
        in bind_io (fetch net \<lparr>url = show_str (tokenUrl config), http_method = ''POST'',
                               headers = hdrs, body = Some (URLSearchParams_toString params)\<rparr>)
           (\<lambda>response.
              if \<not> ok response
              then bind_io (case json response of
                              Inr errorData \<Rightarrow> return_io (show_str (JSON_stringify errorData))
                            | Inl _ \<Rightarrow> await (body_text response))
                   (\<lambda>errorText.
                      throw_io (Error (''OAuth2 token request failed: '' @ show_nat (status response)
                                       @ '' '' @ statusText response @ '' - '' @ errorText)))
              else bind_io (await (json response))
                   (\<lambda>data.
                      bind_io (await (getprop data ''access_token''))
                      (\<lambda>access_token.
                         if \<not> truthy access_token
                         then throw_io (Error ''No access_token in OAuth2 response'')
                         else return_io access_token))))"

definition no_authentication :: string where
  "no_authentication =
     ''No authentication configured. Provide one of: ''
     @ ''BEARER_AUTH_TOKEN, BASIC_USERNAME/BASIC_PASSWORD, ''
     @ ''OAUTH2_AUTHORIZATION_CODE_ACCESS_TOKEN, or OAUTH2_CLIENT_CREDENTIALS_*''"

text \<open>\<^verbatim>\<open>token.startsWith('Bearer ') ? token : `Bearer ${token}`\<close>\<close>

definition bearer :: "string \<Rightarrow> string" where
  "bearer token = (if startsWith token ''Bearer '' then token else ''Bearer '' @ token)"

definition getAuthorizationHeader :: "network \<Rightarrow> exec_context \<Rightarrow> string io" where
  "getAuthorizationHeader net ctx =
     (let env = or_empty (environment ctx);
          sec = or_empty (secrets ctx)
      in if truthy_str (sec ''BEARER_AUTH_TOKEN'')
         then return_io (bearer (show_str (sec ''BEARER_AUTH_TOKEN'')))
         else if truthy_str (sec ''BASIC_PASSWORD'') \<and> truthy_str (sec ''BASIC_USERNAME'')
         then return_io (''Basic '' @ btoa (show_str (sec ''BASIC_USERNAME'') @ '':''
                                           @ show_str (sec ''BASIC_PASSWORD'')))
         else if truthy_str (sec ''OAUTH2_AUTHORIZATION_CODE_ACCESS_TOKEN'')
         then return_io (bearer (show_str (sec ''OAUTH2_AUTHORIZATION_CODE_ACCESS_TOKEN'')))
         else if truthy_str (sec ''OAUTH2_CLIENT_CREDENTIALS_CLIENT_SECRET'')
         then (let token_url = env ''OAUTH2_CLIENT_CREDENTIALS_TOKEN_URL'';
                   client_id = env ''OAUTH2_CLIENT_CREDENTIALS_CLIENT_ID'';
                   client_secret = sec ''OAUTH2_CLIENT_CREDENTIALS_CLIENT_SECRET''
               in if \<not> truthy_str token_url \<or> \<not> truthy_str client_id
                  then throw_io (Error ''OAuth2 Client Credentials flow requires TOKEN_URL and CLIENT_ID in env'')
                  else bind_io (getClientCredentialsToken net
                                  \<lparr>tokenUrl = token_url, clientId = client_id,
                                   clientSecret = client_secret,
                                   scope = env ''OAUTH2_CLIENT_CREDENTIALS_SCOPE'',
                                   audience = env ''OAUTH2_CLIENT_CREDENTIALS_AUDIENCE'',
                                   authStyle = env ''OAUTH2_CLIENT_CREDENTIALS_AUTH_STYLE''\<rparr>)
                       (\<lambda>token. bind_io (await (to_string token))
                                (\<lambda>t. return_io (''Bearer '' @ t))))
         else throw_io (Error no_authentication))"

section \<open>The action\<close>

definition findUserByUsername :: "network \<Rightarrow> string option \<Rightarrow> string \<Rightarrow> string \<Rightarrow> response io" where
  "findUserByUsername net username baseUrl authHeader =
     (let encodedUsername = encodeURIComponent (show_str username);
          query = ''SELECT+Id+FROM+User+WHERE+Username+LIKE+'' @ [CHR 0x27] @ encodedUsername
                  @ [CHR 0x27] @ ''+ORDER+BY+Id+ASC'';
          u = baseUrl @ ''/services/data/v61.0/query?q='' @ query
      in fetch net \<lparr>url = u, http_method = ''GET'',
                     headers = [(''Authorization'', authHeader), (''Accept'', ''application/json'')],
                     body = None\<rparr>)"

definition createPermissionSetAssignment ::
  "network \<Rightarrow> jsval \<Rightarrow> string option \<Rightarrow> string \<Rightarrow> string \<Rightarrow> response io" where
  "createPermissionSetAssignment net userId permissionSetId baseUrl authHeader =
     (let u = baseUrl @ ''/services/data/v61.0/sobjects/PermissionSetAssignment''
      in fetch net \<lparr>url = u, http_method = ''POST'',
                     headers = [(''Authorization'', authHeader), (''Accept'', ''application/json''),
                                (''Content-Type'', ''application/json'')],
                     body = JSON_stringify (JObj [(''AssigneeId'', userId),
                                                  (''PermissionSetId'', js_of permissionSetId)])\<rparr>)"

text \<open>
  \<^verbatim>\<open>errorResult.some(callback)\<close>: the elements in order, up to the first the callback
  accepts; only an array has the method.
\<close>

fun array_some :: "(jsval \<Rightarrow> js_error + bool) \<Rightarrow> jsval list \<Rightarrow> js_error + bool" where
  "array_some f [] = Inr False"
| "array_some f (x # xs) =
     (case f x of Inl e \<Rightarrow> Inl e | Inr b \<Rightarrow> if b then Inr True else array_some f xs)"

definition some_of :: "jsval \<Rightarrow> (jsval \<Rightarrow> js_error + bool) \<Rightarrow> js_error + bool" where
  "some_of v f =
     (case v of
        JArr xs \<Rightarrow> array_some f xs
      | JUndefined \<Rightarrow> Inl (cannot_read ''undefined'' ''some'')
      | JNull \<Rightarrow> Inl (cannot_read ''null'' ''some'')
      | _ \<Rightarrow> Inl (TypeError ''errorResult.some is not a function''))"

text \<open>
  The callback:
  \<^verbatim>\<open>error.errorCode === 'DUPLICATE_VALUE' || error.message?.toLowerCase().includes('duplicate')\<close>.
  A message that is neither a string nor nullish has no \<^verbatim>\<open>toLowerCase\<close> to call.
\<close>

definition duplicate_callback :: "jsval \<Rightarrow> js_error + bool" where
  "duplicate_callback error =
     (case getprop error ''errorCode'' of
        Inl e \<Rightarrow> Inl e
      | Inr code \<Rightarrow>
          if code = JStr ''DUPLICATE_VALUE'' then Inr True
          else (case getprop error ''message'' of
                  Inl e \<Rightarrow> Inl e
                | Inr m \<Rightarrow>
                    (case m of
                       JUndefined \<Rightarrow> Inr False
                     | JNull \<Rightarrow> Inr False
                     | JStr t \<Rightarrow> Inr (includes_str (toLowerCase t) ''duplicate'')
                     | _ \<Rightarrow> Inl (TypeError ''error.message?.toLowerCase is not a function''))))"

text \<open>\<^verbatim>\<open>errorResult[0]?.message\<close>\<close>

definition first_message :: "jsval \<Rightarrow> js_error + jsval" where
  "first_message errorResult =
     (case getprop errorResult ''0'' of
        Inl e \<Rightarrow> Inl e
      | Inr first \<Rightarrow>
          if first = JUndefined \<or> first = JNull then Inr JUndefined else getprop first ''message'')"

definition failed_to_create :: string where
  "failed_to_create = ''Failed to create permission set assignment: ''"

text \<open>
  \<^verbatim>\<open>invoke(params, context)\<close>. Of the logging only the two lines that print a value of the
  response are kept, since printing can throw; the others print strings.
\<close>

definition invoke :: "network \<Rightarrow> strobj \<Rightarrow> exec_context \<Rightarrow> jsval io" where
  "invoke net params ctx =
     (let username = params ''username'';
          permissionSetId = params ''permissionSetId''
      in bind_io (await (getBaseURL (Some params) ctx)) (\<lambda>baseUrl.
         bind_io (getAuthorizationHeader net ctx) (\<lambda>authHeader.
         bind_io (findUserByUsername net username baseUrl authHeader) (\<lambda>userResponse.
         if \<not> ok userResponse
         then throw_io (Error (''Failed to query user '' @ show_str username @ '': ''
                               @ show_nat (status userResponse) @ '' '' @ statusText userResponse))
         else
         bind_io (await (json userResponse)) (\<lambda>userResult.
         bind_io (await (getprop userResult ''records'')) (\<lambda>records.
         if \<not> truthy records \<or> getprop records ''length'' = Inr (JNum ''0'')
         then throw_io (Error (''User not found: '' @ show_str username))
         else
         bind_io (await (getprop records ''0'')) (\<lambda>record0.
         bind_io (await (getprop record0 ''Id'')) (\<lambda>userId.
         bind_io (await (to_string userId)) (\<lambda>_.
         bind_io (createPermissionSetAssignment net userId permissionSetId baseUrl authHeader)
           (\<lambda>assignmentResponse.
         bind_io
           (if status assignmentResponse = 201
            then bind_io (await (json assignmentResponse)) (\<lambda>assignmentResult.
                 bind_io (await (getprop assignmentResult ''id'')) (\<lambda>assignmentId.
                 bind_io (await (to_string assignmentId)) (\<lambda>_.
                 return_io assignmentId)))
            else if status assignmentResponse = 400
            then bind_io (await (json assignmentResponse)) (\<lambda>errorResult.
                 bind_io (await (some_of errorResult duplicate_callback)) (\<lambda>isDuplicateError.
                 if isDuplicateError then return_io JNull
                 else bind_io (await (first_message errorResult)) (\<lambda>m.
                      bind_io (await (to_string (or_val m (JStr ''Unknown error'')))) (\<lambda>t.
                      throw_io (Error (failed_to_create @ t))))))
            else throw_io (Error (failed_to_create @ show_nat (status assignmentResponse)
                                  @ '' '' @ statusText assignmentResponse)))
           (\<lambda>assignmentId.
         return_io (JObj [(''status'', JStr ''success''),
                          (''username'', js_of username),
                          (''userId'', userId),
                          (''permissionSetId'', js_of permissionSetId),
                          (''assignmentId'', assignmentId),
                          (''address'', JStr baseUrl)]))))))))))))"

text \<open>\<^verbatim>\<open>error(params, context)\<close> of the action: the error is thrown again.\<close>

record error_params =
  error :: js_error

definition error_handler :: "error_params \<Rightarrow> exec_context \<Rightarrow> jsval io" where
  "error_handler params ctx = throw_io (error params)"

text \<open>
  \<^verbatim>\<open>error(params, context)\<close> of the variant of the action that reads the instance URL and
  the access token from the environment: the message is searched for status codes and
  phrases.
\<close>

definition error_handler_variant :: "error_params \<Rightarrow> exec_context \<Rightarrow> jsval io" where
  "error_handler_variant params ctx =
     (let msg = message (error params)
      in if includes_str msg ''429'' \<or> includes_str msg ''502'' \<or> includes_str msg ''503''
            \<or> includes_str msg ''504''
         then return_io (JObj [(''status'', JStr ''retry_requested'')])
         else if includes_str msg ''401'' \<or> includes_str msg ''403''
                 \<or> includes_str msg ''is required'' \<or> includes_str msg ''not found''
         then throw_io (error params)
         else return_io (JObj [(''status'', JStr ''retry_requested'')]))"

text \<open>
  \<^verbatim>\<open>halt(params, context)\<close>, with any of the values above as \<^verbatim>\<open>params\<close>; \<open>now\<close> is
  \<^verbatim>\<open>new Date().toISOString()\<close>, the reading of the clock. The pattern
  \<^verbatim>\<open>const { reason, username } = params\<close> throws on \<^verbatim>\<open>null\<close> and \<^verbatim>\<open>undefined\<close> and reads the two
  properties of any other value. The logging is kept because it prints the reason and
  then the username, and printing can throw.
\<close>

definition cannot_destructure :: "string \<Rightarrow> js_error" where
  "cannot_destructure v =
     TypeError (''Cannot destructure property '' @ [CHR 0x27] @ ''reason'' @ [CHR 0x27]
                @ '' of '' @ [CHR 0x27] @ ''params'' @ [CHR 0x27] @ '' as it is '' @ v @ ''.'')"

definition halt :: "string \<Rightarrow> jsval \<Rightarrow> exec_context \<Rightarrow> jsval io" where
  "halt now params ctx =
     (if params = JNull then throw_io (cannot_destructure ''null'')
      else if params = JUndefined then throw_io (cannot_destructure ''undefined'')
      else
      bind_io (await (getprop params ''reason'')) (\<lambda>reason.
      bind_io (await (getprop params ''username'')) (\<lambda>username.
      bind_io (await (to_string reason)) (\<lambda>_.
      bind_io (await (to_string (or_val username (JStr ''unknown'')))) (\<lambda>_.
      return_io (JObj [(''status'', JStr ''halted''),
                       (''username'', or_val username (JStr ''unknown'')),
                       (''reason'', reason),
                       (''halted_at'', JStr now)]))))))"

section \<open>Well-formed payloads\<close>

text \<open>
  The vocabulary of the statements about \<^verbatim>\<open>invoke\<close>. A value is printable when a template
  literal can print it. An error entry is an element of an error list on which the
  duplicate test runs to its end: it is neither \<^verbatim>\<open>null\<close> nor \<^verbatim>\<open>undefined\<close>, and its message is
  missing, \<^verbatim>\<open>null\<close> or a string. A duplicate entry has the error code \<^verbatim>\<open>DUPLICATE_VALUE\<close> or
  a string message that contains \<^verbatim>\<open>duplicate\<close> in any mix of capitals and small letters.
\<close>

definition printable :: "jsval \<Rightarrow> bool" where
  "printable v = (case to_string v of Inl _ \<Rightarrow> False | Inr _ \<Rightarrow> True)"

definition nullish :: "jsval \<Rightarrow> bool" where
  "nullish v = (v = JUndefined \<or> v = JNull)"

definition error_entry :: "jsval \<Rightarrow> bool" where
  "error_entry e =
     (\<not> nullish e \<and>
      (case getprop e ''message'' of
         Inr JUndefined \<Rightarrow> True
       | Inr JNull \<Rightarrow> True
       | Inr (JStr m) \<Rightarrow> True
       | _ \<Rightarrow> False))"

definition duplicate_entry :: "jsval \<Rightarrow> bool" where
  "duplicate_entry e =
     (getprop e ''errorCode'' = Inr (JStr ''DUPLICATE_VALUE'')
      \<or> (case getprop e ''message'' of
            Inr (JStr m) \<Rightarrow> includes_str (toLowerCase m) ''duplicate''
          | _ \<Rightarrow> False))"

section \<open>Sample inputs\<close>

text \<open>
  A network that answers the requests from a list of responses, in order, and rejects
  once the list is used up; and the context and parameters of a run with a bearer token.
\<close>

definition replay :: "response list \<Rightarrow> network" where
  "replay rs = (\<lambda>sent req. if length sent < length rs then Inr (rs ! length sent)
                               else Inl (TypeError ''fetch failed''))"

definition json_response :: "bool \<Rightarrow> nat \<Rightarrow> string \<Rightarrow> jsval \<Rightarrow> response" where
  "json_response is_ok code reason_phrase v =
     \<lparr>ok = is_ok, status = code, statusText = reason_phrase, json = Inr v,
      body_text = Inl (TypeError ''Body is unusable: Body has already been read'')\<rparr>"

definition sample_context :: exec_context where
  "sample_context =
     \<lparr>environment = Some [''ADDRESS'' \<mapsto> ''https://test.my.salesforce.com''],
      secrets = Some [''BEARER_AUTH_TOKEN'' \<mapsto> ''test-access-token'']\<rparr>"

definition sample_params :: strobj where
  "sample_params = [''username'' \<mapsto> ''test.user@example.com'',
                    ''permissionSetId'' \<mapsto> ''0PS000000000001'']"

definition user_found :: response where
  "user_found = json_response True 200 ''OK''
                  (JObj [(''records'', JArr [JObj [(''Id'', JStr ''005000000000001'')]])])"

text \<open>Answers to the assignment request.\<close>

definition assignment_created :: response where
  "assignment_created = json_response True 201 ''Created''
                          (JObj [(''id'', JStr ''PSA000000000001''), (''success'', JBool True)])"

definition duplicate_reported :: response where
  "duplicate_reported = json_response False 400 ''Bad Request''
     (JArr [JObj [(''errorCode'', JStr ''FIELD_INTEGRITY_EXCEPTION''),
                  (''message'', JStr ''Assignee is inactive'')],
            JObj [(''message'', JStr ''Duplicate PermissionSetAssignment'')]])"

definition duplicate_after_null :: response where
  "duplicate_after_null = json_response False 400 ''Bad Request''
     (JArr [JNull,
            JObj [(''errorCode'', JStr ''DUPLICATE_VALUE''),
                  (''message'', JStr ''Duplicate permission set assignment'')]])"

definition field_missing :: response where
  "field_missing = json_response False 400 ''Bad Request''
     (JArr [JObj [(''errorCode'', JStr ''REQUIRED_FIELD_MISSING''),
                  (''message'', JStr ''Missing required field'')]])"

definition bad_request_object :: response where
  "bad_request_object = json_response False 400 ''Bad Request''
     (JObj [(''message'', JStr ''Bad Request'')])"

definition server_error :: response where
  "server_error = json_response False 500 ''Internal Server Error'' (JArr [])"

text \<open>Answers to the user query.\<close>

definition no_user :: response where
  "no_user = json_response True 200 ''OK''
               (JObj [(''totalSize'', JNum ''0''), (''done'', JBool True), (''records'', JArr [])])"

definition two_users :: response where
  "two_users = json_response True 200 ''OK''
     (JObj [(''records'', JArr [JObj [(''Id'', JStr ''005000000000001'')],
                                JObj [(''Id'', JStr ''005000000000002'')]])])"

definition records_object :: response where
  "records_object = json_response True 200 ''OK''
     (JObj [(''records'', JObj [(''0'', JObj [(''Id'', JStr ''005000000000001'')])])])"

text \<open>
  Ok answers to the user query whose body has no \<^verbatim>\<open>records\<close>: the JSON text \<^verbatim>\<open>null\<close>, and a
  page of HTML, which \<^verbatim>\<open>response.json()\<close> rejects.
\<close>

definition null_body :: response where
  "null_body = json_response True 200 ''OK'' JNull"

definition html_body :: response where
  "html_body =
     \<lparr>ok = True, status = 200, statusText = ''OK'',
      json = Inl (JSError ''SyntaxError'' ''Unexpected token < in JSON at position 0''),
      body_text = Inl (TypeError ''Body is unusable: Body has already been read'')\<rparr>"

text \<open>A token endpoint that grants a token, and the environment that names it.\<close>

definition token_granted :: response where
  "token_granted = json_response True 200 ''OK'' (JObj [(''access_token'', JStr ''fetched'')])"

definition oauth_env :: strobj where
  "oauth_env = [''OAUTH2_CLIENT_CREDENTIALS_TOKEN_URL'' \<mapsto> ''https://login.example/token'',
                ''OAUTH2_CLIENT_CREDENTIALS_CLIENT_ID'' \<mapsto> ''client'']"

section \<open>The printed form of a length\<close>

declare show_nat.simps [simp del]

lemma show_nat_0: "show_nat 0 = ''0''"
  by code_simp

lemma show_nat_not_Nil: "show_nat n \<noteq> []"
  by (subst show_nat.simps) simp

text \<open>Only zero prints as \<^verbatim>\<open>0\<close>: the test \<^verbatim>\<open>length === 0\<close> can be made on the printed form.\<close>

lemma show_nat_eq_0 [simp]: "(show_nat n = ''0'') = (n = 0)"
proof (cases "n = 0")
  case True
  then show ?thesis by (simp add: show_nat_0)
next
  case False
  show ?thesis
  proof (cases "n < 10")
    case True
    have "of_char (char_of (48 + n)) = 48 + n"
      using True by simp
    moreover have "of_char (CHR ''0'') = (48::nat)"
      by simp
    ultimately have "char_of (48 + n) \<noteq> CHR ''0''"
      using False by (metis add_cancel_right_right)
    then show ?thesis
      using True False by (subst show_nat.simps) simp
  next
    case False
    then show ?thesis
      by (subst show_nat.simps) (simp add: show_nat_not_Nil)
  qed
qed

section \<open>Running a computation\<close>

lemma return_io_apply [simp]: "return_io x sent = (Inr x, sent)"
  by (simp add: return_io_def)

lemma throw_io_apply [simp]: "throw_io e sent = (Inl e, sent)"
  by (simp add: throw_io_def)

lemma await_apply [simp]: "await r sent = (r, sent)"
  by (simp add: await_def)

lemma bind_io_apply:
  "bind_io m f sent =
     (case m sent of (Inl e, sent') \<Rightarrow> (Inl e, sent') | (Inr x, sent') \<Rightarrow> f x sent')"
  by (simp add: bind_io_def)

lemma fetch_apply [simp]: "fetch net req sent = (net sent req, sent @ [req])"
  by (simp add: fetch_def)

section \<open>The base URL is chosen and trimmed\<close>

text \<open>
  C9. The address of the parameters, when it is set and not empty, decides the result
  whatever the environment holds; otherwise \<^verbatim>\<open>ADDRESS\<close> of the environment does. A chosen
  value \<open>b @ ''/''\<close> yields \<open>b\<close>, so one slash goes and no more; a value that does not
  end in a slash is returned as it is. With neither value set, or both empty, the
  function throws an error whose message contains \<^verbatim>\<open>No URL specified\<close>.
\<close>

theorem getBaseURL_choice:
  "(params = Some p \<and> p ''address'' = Some (b @ ''/'') \<longrightarrow> getBaseURL params ctx = Inr b)
   \<and> (params = Some p \<and> p ''address'' = Some a \<and> a \<noteq> [] \<and> \<not> endsWith a ''/''
        \<longrightarrow> getBaseURL params ctx = Inr a)
   \<and> (\<not> truthy_str (case params of None \<Rightarrow> None | Some q \<Rightarrow> q ''address'')
        \<and> or_empty (environment ctx) ''ADDRESS'' = Some (b @ ''/'')
        \<longrightarrow> getBaseURL params ctx = Inr b)
   \<and> (\<not> truthy_str (case params of None \<Rightarrow> None | Some q \<Rightarrow> q ''address'')
        \<and> or_empty (environment ctx) ''ADDRESS'' = Some a \<and> a \<noteq> [] \<and> \<not> endsWith a ''/''
        \<longrightarrow> getBaseURL params ctx = Inr a)
   \<and> (\<not> truthy_str (case params of None \<Rightarrow> None | Some q \<Rightarrow> q ''address'')
        \<and> \<not> truthy_str (or_empty (environment ctx) ''ADDRESS'')
        \<longrightarrow> (\<exists>msg. getBaseURL params ctx = Inl (Error msg)
                   \<and> includes_str msg ''No URL specified''))"
proof -
  have mentions: "includes_str no_url_specified ''No URL specified''"
    by code_simp
  have slash: "endsWith (b @ ''/'') ''/''"
    by (simp add: endsWith_def suffix_def)
  show ?thesis
    using mentions slash
    by (auto simp: getBaseURL_def Let_def or_str_def truthy_str_def split: option.splits)
qed

theorem getBaseURL_choice_witness:
  "getBaseURL (Some [''address'' \<mapsto> ''https://a.example/''])
              \<lparr>environment = Some [''ADDRESS'' \<mapsto> ''https://e.example''], secrets = None\<rparr>
     = Inr ''https://a.example''
   \<and> getBaseURL (Some [''address'' \<mapsto> ''https://a.example''])
              \<lparr>environment = Some [''ADDRESS'' \<mapsto> ''https://e.example''], secrets = None\<rparr>
     = Inr ''https://a.example''
   \<and> getBaseURL (Some Map.empty)
              \<lparr>environment = Some [''ADDRESS'' \<mapsto> ''https://e.example/''], secrets = None\<rparr>
     = Inr ''https://e.example''
   \<and> getBaseURL None
              \<lparr>environment = Some [''ADDRESS'' \<mapsto> ''https://e.example''], secrets = None\<rparr>
     = Inr ''https://e.example''
   \<and> (\<exists>msg. getBaseURL (Some [''address'' \<mapsto> []]) \<lparr>environment = None, secrets = None\<rparr>
              = Inl (Error msg) \<and> includes_str msg ''No URL specified'')"
proof -
  have a: "\<not> endsWith ''https://a.example'' ''/''" and e: "\<not> endsWith ''https://e.example'' ''/''"
    by code_simp+
  show ?thesis
    using a e
      getBaseURL_choice [where params = "Some [''address'' \<mapsto> ''https://a.example/'']"
        and p = "[''address'' \<mapsto> ''https://a.example/'']" and b = "''https://a.example''"
        and ctx = "\<lparr>environment = Some [''ADDRESS'' \<mapsto> ''https://e.example''], secrets = None\<rparr>"]
      getBaseURL_choice [where params = "Some [''address'' \<mapsto> ''https://a.example'']"
        and p = "[''address'' \<mapsto> ''https://a.example'']" and a = "''https://a.example''"
        and ctx = "\<lparr>environment = Some [''ADDRESS'' \<mapsto> ''https://e.example''], secrets = None\<rparr>"]
      getBaseURL_choice [where params = "Some Map.empty" and b = "''https://e.example''"
        and ctx = "\<lparr>environment = Some [''ADDRESS'' \<mapsto> ''https://e.example/''], secrets = None\<rparr>"]
      getBaseURL_choice [where params = None and a = "''https://e.example''"
        and ctx = "\<lparr>environment = Some [''ADDRESS'' \<mapsto> ''https://e.example''], secrets = None\<rparr>"]
      getBaseURL_choice [where params = "Some [''address'' \<mapsto> []]"
        and ctx = "\<lparr>environment = None, secrets = None\<rparr>"]
    by (simp add: truthy_str_def or_empty_def)
qed

section \<open>The halt entry point\<close>

text \<open>
  C7, as the code has it. On parameters that are neither \<^verbatim>\<open>null\<close> nor \<^verbatim>\<open>undefined\<close>, whose
  reason can be printed and whose username, or \<^verbatim>\<open>unknown\<close> in place of a username that is
  not truthy, can be printed, \<^verbatim>\<open>halt\<close> returns and sends no request: the requests sent are
  those sent before. Its result has status \<^verbatim>\<open>halted\<close>, the reason of the parameters
  (\<^verbatim>\<open>undefined\<close> when they have none), and as username the one of the parameters when it is
  truthy (a string that is not empty, say), \<^verbatim>\<open>unknown\<close> otherwise.
\<close>

theorem halt_result:
  assumes object: "params \<noteq> JNull" "params \<noteq> JUndefined"
    and reason: "getprop params ''reason'' = Inr reason"
    and username: "getprop params ''username'' = Inr username"
    and prints: "printable reason" "printable (or_val username (JStr ''unknown''))"
  shows "\<exists>r. halt now params ctx sent = (Inr r, sent)
     \<and> getprop r ''status'' = Inr (JStr ''halted'')
     \<and> getprop r ''reason'' = Inr reason
     \<and> getprop r ''username'' = Inr (if truthy username then username else JStr ''unknown'')"
proof -
  from prints obtain s t where "to_string reason = Inr s"
    "to_string (or_val username (JStr ''unknown'')) = Inr t"
    by (auto simp: printable_def split: sum.splits)
  then show ?thesis
    by (simp add: halt_def bind_io_apply object reason username or_val_def)
qed

theorem halt_result_witness:
  "(\<exists>r. halt ''2026-01-01T00:00:00.000Z''
           (JObj [(''username'', JStr ''test.user@example.com''), (''reason'', JStr ''timeout'')])
           sample_context [] = (Inr r, [])
        \<and> getprop r ''status'' = Inr (JStr ''halted'')
        \<and> getprop r ''reason'' = Inr (JStr ''timeout'')
        \<and> getprop r ''username'' = Inr (JStr ''test.user@example.com''))
   \<and> (\<exists>r. halt ''2026-01-01T00:00:00.000Z'' (JObj [(''reason'', JStr ''system_shutdown'')])
           sample_context [] = (Inr r, [])
        \<and> getprop r ''status'' = Inr (JStr ''halted'')
        \<and> getprop r ''reason'' = Inr (JStr ''system_shutdown'')
        \<and> getprop r ''username'' = Inr (JStr ''unknown''))"
  using halt_result [where now = "''2026-01-01T00:00:00.000Z''" and ctx = sample_context
      and sent = "[]" and reason = "JStr ''timeout''"
      and username = "JStr ''test.user@example.com''" and params =
        "JObj [(''username'', JStr ''test.user@example.com''), (''reason'', JStr ''timeout'')]"]
    halt_result [where now = "''2026-01-01T00:00:00.000Z''" and ctx = sample_context
      and sent = "[]" and reason = "JStr ''system_shutdown''" and username = JUndefined
      and params = "JObj [(''reason'', JStr ''system_shutdown'')]"]
  by (simp add: printable_def or_val_def)

text \<open>
  The claim as it is written fails on parameters that are \<^verbatim>\<open>null\<close>, which the pattern
  cannot take apart, and on a reason that is an object with an own property
  \<^verbatim>\<open>toString\<close>, which the logging cannot print: \<^verbatim>\<open>halt\<close> throws on both.
\<close>

theorem halt_counterexample:
  "halt ''2026-01-01T00:00:00.000Z'' JNull sample_context []
     = (Inl (cannot_destructure ''null''), [])
   \<and> halt ''2026-01-01T00:00:00.000Z''
        (JObj [(''username'', JStr ''test.user@example.com''),
               (''reason'', JObj [(''toString'', JNum ''1'')])])
        sample_context []
     = (Inl (TypeError ''Cannot convert object to primitive value''), [])"
  by code_simp

section \<open>The authorization header\<close>

lemma bearer_prefix: "startsWith (bearer t) ''Bearer ''"
  by (simp add: bearer_def startsWith_def)

lemma mentions_no_authentication:
  "includes_str no_authentication ''No authentication configured''"
  by code_simp

text \<open>
  C2. The four schemes are tried in the order bearer token, basic credentials, OAuth2
  authorization code, OAuth2 client credentials; a secret counts as present when it is
  set and not empty. The first scheme whose secrets are present decides the outcome and
  the later ones are not looked at; the first three send no request. With client
  credentials the header is \<^verbatim>\<open>Bearer\<close> and the token that \<^verbatim>\<open>getClientCredentialsToken\<close>
  fetches, unless the token URL or the client id is missing from the environment. With
  no scheme present the function throws an error whose message contains
  \<^verbatim>\<open>No authentication configured\<close>.
\<close>

theorem getAuthorizationHeader_priority:
  fixes ctx :: exec_context
  defines "sec \<equiv> or_empty (secrets ctx)" and "env \<equiv> or_empty (environment ctx)"
  shows
  "(truthy_str (sec ''BEARER_AUTH_TOKEN'')
      \<longrightarrow> getAuthorizationHeader net ctx sent
          = (Inr (bearer (show_str (sec ''BEARER_AUTH_TOKEN''))), sent))
   \<and> (\<not> truthy_str (sec ''BEARER_AUTH_TOKEN'')
       \<and> truthy_str (sec ''BASIC_USERNAME'') \<and> truthy_str (sec ''BASIC_PASSWORD'')
      \<longrightarrow> getAuthorizationHeader net ctx sent
          = (Inr (''Basic '' @ btoa (show_str (sec ''BASIC_USERNAME'') @ '':''
                                     @ show_str (sec ''BASIC_PASSWORD''))), sent))
   \<and> (\<not> truthy_str (sec ''BEARER_AUTH_TOKEN'')
       \<and> \<not> (truthy_str (sec ''BASIC_USERNAME'') \<and> truthy_str (sec ''BASIC_PASSWORD''))
       \<and> truthy_str (sec ''OAUTH2_AUTHORIZATION_CODE_ACCESS_TOKEN'')
      \<longrightarrow> getAuthorizationHeader net ctx sent
          = (Inr (bearer (show_str (sec ''OAUTH2_AUTHORIZATION_CODE_ACCESS_TOKEN''))), sent))
   \<and> (\<not> truthy_str (sec ''BEARER_AUTH_TOKEN'')
       \<and> \<not> (truthy_str (sec ''BASIC_USERNAME'') \<and> truthy_str (sec ''BASIC_PASSWORD''))
       \<and> \<not> truthy_str (sec ''OAUTH2_AUTHORIZATION_CODE_ACCESS_TOKEN'')
       \<and> truthy_str (sec ''OAUTH2_CLIENT_CREDENTIALS_CLIENT_SECRET'')
      \<longrightarrow> getAuthorizationHeader net ctx sent
          = (if \<not> truthy_str (env ''OAUTH2_CLIENT_CREDENTIALS_TOKEN_URL'')
                \<or> \<not> truthy_str (env ''OAUTH2_CLIENT_CREDENTIALS_CLIENT_ID'')
             then (Inl (Error ''OAuth2 Client Credentials flow requires TOKEN_URL and CLIENT_ID in env''),
                   sent)
             else (case getClientCredentialsToken net
                          \<lparr>tokenUrl = env ''OAUTH2_CLIENT_CREDENTIALS_TOKEN_URL'',
                           clientId = env ''OAUTH2_CLIENT_CREDENTIALS_CLIENT_ID'',
                           clientSecret = sec ''OAUTH2_CLIENT_CREDENTIALS_CLIENT_SECRET'',
                           scope = env ''OAUTH2_CLIENT_CREDENTIALS_SCOPE'',
                           audience = env ''OAUTH2_CLIENT_CREDENTIALS_AUDIENCE'',
                           authStyle = env ''OAUTH2_CLIENT_CREDENTIALS_AUTH_STYLE''\<rparr> sent of
                     (Inl e, sent') \<Rightarrow> (Inl e, sent')
                   | (Inr token, sent') \<Rightarrow>
                       (case to_string token of
                          Inl e \<Rightarrow> (Inl e, sent')
                        | Inr t \<Rightarrow> (Inr (''Bearer '' @ t), sent')))))
   \<and> (\<not> truthy_str (sec ''BEARER_AUTH_TOKEN'')
       \<and> \<not> (truthy_str (sec ''BASIC_USERNAME'') \<and> truthy_str (sec ''BASIC_PASSWORD''))
       \<and> \<not> truthy_str (sec ''OAUTH2_AUTHORIZATION_CODE_ACCESS_TOKEN'')
       \<and> \<not> truthy_str (sec ''OAUTH2_CLIENT_CREDENTIALS_CLIENT_SECRET'')
      \<longrightarrow> (\<exists>msg. getAuthorizationHeader net ctx sent = (Inl (Error msg), sent)
                 \<and> includes_str msg ''No authentication configured''))"
  unfolding sec_def env_def
  using mentions_no_authentication
  by (auto simp: getAuthorizationHeader_def Let_def bind_io_apply
           split: prod.splits sum.splits)

text \<open>
  C10. A header that \<^verbatim>\<open>getAuthorizationHeader\<close> returns starts with \<^verbatim>\<open>Bearer \<close> or with
  \<^verbatim>\<open>Basic \<close>. When the bearer token decides, and when the authorization-code token
  decides, a token that starts with \<^verbatim>\<open>Bearer \<close> is the header as it is; any other token is
  the header after one \<^verbatim>\<open>Bearer \<close>.
\<close>

theorem getAuthorizationHeader_prefix:
  "(getAuthorizationHeader net ctx sent = (Inr h, sent')
      \<longrightarrow> startsWith h ''Bearer '' \<or> startsWith h ''Basic '')
   \<and> (or_empty (secrets ctx) ''BEARER_AUTH_TOKEN'' = Some t \<and> t \<noteq> []
      \<longrightarrow> getAuthorizationHeader net ctx sent
          = (Inr (if startsWith t ''Bearer '' then t else ''Bearer '' @ t), sent))
   \<and> (\<not> truthy_str (or_empty (secrets ctx) ''BEARER_AUTH_TOKEN'')
      \<and> \<not> (truthy_str (or_empty (secrets ctx) ''BASIC_PASSWORD'')
            \<and> truthy_str (or_empty (secrets ctx) ''BASIC_USERNAME''))
      \<and> or_empty (secrets ctx) ''OAUTH2_AUTHORIZATION_CODE_ACCESS_TOKEN'' = Some t \<and> t \<noteq> []
      \<longrightarrow> getAuthorizationHeader net ctx sent
          = (Inr (if startsWith t ''Bearer '' then t else ''Bearer '' @ t), sent))"
proof (intro conjI impI)
  assume "getAuthorizationHeader net ctx sent = (Inr h, sent')"
  then show "startsWith h ''Bearer '' \<or> startsWith h ''Basic ''"
    by (auto simp: getAuthorizationHeader_def Let_def bind_io_apply bearer_prefix
             split: if_splits prod.splits sum.splits)
       (simp_all add: startsWith_def)
next
  assume "or_empty (secrets ctx) ''BEARER_AUTH_TOKEN'' = Some t \<and> t \<noteq> []"
  then show "getAuthorizationHeader net ctx sent
          = (Inr (if startsWith t ''Bearer '' then t else ''Bearer '' @ t), sent)"
    by (simp add: getAuthorizationHeader_def Let_def truthy_str_def show_str_def bearer_def)
next
  assume h: "\<not> truthy_str (or_empty (secrets ctx) ''BEARER_AUTH_TOKEN'')
      \<and> \<not> (truthy_str (or_empty (secrets ctx) ''BASIC_PASSWORD'')
            \<and> truthy_str (or_empty (secrets ctx) ''BASIC_USERNAME''))
      \<and> or_empty (secrets ctx) ''OAUTH2_AUTHORIZATION_CODE_ACCESS_TOKEN'' = Some t \<and> t \<noteq> []"
  then have ac: "truthy_str (or_empty (secrets ctx) ''OAUTH2_AUTHORIZATION_CODE_ACCESS_TOKEN'')"
    by (simp add: truthy_str_def)
  from h ac show "getAuthorizationHeader net ctx sent
          = (Inr (if startsWith t ''Bearer '' then t else ''Bearer '' @ t), sent)"
    by (auto simp add: getAuthorizationHeader_def Let_def show_str_def bearer_def)
qed

theorem getAuthorizationHeader_priority_witness:
  "fst (getAuthorizationHeader (replay [])
      \<lparr>environment = None,
       secrets = Some [''BEARER_AUTH_TOKEN'' \<mapsto> ''tok'', ''BASIC_USERNAME'' \<mapsto> ''u'',
                       ''BASIC_PASSWORD'' \<mapsto> ''p'',
                       ''OAUTH2_AUTHORIZATION_CODE_ACCESS_TOKEN'' \<mapsto> ''code'',
                       ''OAUTH2_CLIENT_CREDENTIALS_CLIENT_SECRET'' \<mapsto> ''s3cret'']\<rparr> [])
     = Inr ''Bearer tok''
   \<and> fst (getAuthorizationHeader (replay [])
      \<lparr>environment = None,
       secrets = Some [''BASIC_USERNAME'' \<mapsto> ''u'', ''BASIC_PASSWORD'' \<mapsto> ''p'',
                       ''OAUTH2_AUTHORIZATION_CODE_ACCESS_TOKEN'' \<mapsto> ''code'',
                       ''OAUTH2_CLIENT_CREDENTIALS_CLIENT_SECRET'' \<mapsto> ''s3cret'']\<rparr> [])
     = Inr ''Basic dTpw''
   \<and> fst (getAuthorizationHeader (replay [])
      \<lparr>environment = None,
       secrets = Some [''BASIC_USERNAME'' \<mapsto> ''u'',
                       ''OAUTH2_AUTHORIZATION_CODE_ACCESS_TOKEN'' \<mapsto> ''code'',
                       ''OAUTH2_CLIENT_CREDENTIALS_CLIENT_SECRET'' \<mapsto> ''s3cret'']\<rparr> [])
     = Inr ''Bearer code''
   \<and> fst (getAuthorizationHeader (replay [token_granted])
      \<lparr>environment = Some oauth_env,
       secrets = Some [''OAUTH2_CLIENT_CREDENTIALS_CLIENT_SECRET'' \<mapsto> ''s3cret'']\<rparr> [])
     = Inr ''Bearer fetched''
   \<and> (\<exists>msg. getAuthorizationHeader (replay [])
         \<lparr>environment = None, secrets = Some [''BASIC_USERNAME'' \<mapsto> ''u'']\<rparr> []
         = (Inl (Error msg), []) \<and> includes_str msg ''No authentication configured'')"
proof -
  have b64: "btoa ''u:p'' = ''dTpw''"
    by code_simp
  have url: "truthy_str (oauth_env ''OAUTH2_CLIENT_CREDENTIALS_TOKEN_URL'')"
    and cid: "truthy_str (oauth_env ''OAUTH2_CLIENT_CREDENTIALS_CLIENT_ID'')"
    by code_simp+
  have fetched:
    "fst (getClientCredentialsToken (replay [token_granted])
            \<lparr>tokenUrl = oauth_env ''OAUTH2_CLIENT_CREDENTIALS_TOKEN_URL'',
             clientId = oauth_env ''OAUTH2_CLIENT_CREDENTIALS_CLIENT_ID'',
             clientSecret = [''OAUTH2_CLIENT_CREDENTIALS_CLIENT_SECRET'' \<mapsto> ''s3cret'']
                              ''OAUTH2_CLIENT_CREDENTIALS_CLIENT_SECRET'',
             scope = oauth_env ''OAUTH2_CLIENT_CREDENTIALS_SCOPE'',
             audience = oauth_env ''OAUTH2_CLIENT_CREDENTIALS_AUDIENCE'',
             authStyle = oauth_env ''OAUTH2_CLIENT_CREDENTIALS_AUTH_STYLE''\<rparr> [])
       = Inr (JStr ''fetched'')"
    by code_simp
  show ?thesis
    using b64 url cid fetched
      getAuthorizationHeader_priority [where net = "replay []" and sent = "[]" and ctx =
        "\<lparr>environment = None,
          secrets = Some [''BEARER_AUTH_TOKEN'' \<mapsto> ''tok'', ''BASIC_USERNAME'' \<mapsto> ''u'',
                       ''BASIC_PASSWORD'' \<mapsto> ''p'',
                       ''OAUTH2_AUTHORIZATION_CODE_ACCESS_TOKEN'' \<mapsto> ''code'',
                       ''OAUTH2_CLIENT_CREDENTIALS_CLIENT_SECRET'' \<mapsto> ''s3cret'']\<rparr>"]
      getAuthorizationHeader_priority [where net = "replay []" and sent = "[]" and ctx =
        "\<lparr>environment = None,
          secrets = Some [''BASIC_USERNAME'' \<mapsto> ''u'', ''BASIC_PASSWORD'' \<mapsto> ''p'',
                       ''OAUTH2_AUTHORIZATION_CODE_ACCESS_TOKEN'' \<mapsto> ''code'',
                       ''OAUTH2_CLIENT_CREDENTIALS_CLIENT_SECRET'' \<mapsto> ''s3cret'']\<rparr>"]
      getAuthorizationHeader_priority [where net = "replay []" and sent = "[]" and ctx =
        "\<lparr>environment = None,
          secrets = Some [''BASIC_USERNAME'' \<mapsto> ''u'',
                       ''OAUTH2_AUTHORIZATION_CODE_ACCESS_TOKEN'' \<mapsto> ''code'',
                       ''OAUTH2_CLIENT_CREDENTIALS_CLIENT_SECRET'' \<mapsto> ''s3cret'']\<rparr>"]
      getAuthorizationHeader_priority [where net = "replay [token_granted]" and sent = "[]"
        and ctx = "\<lparr>environment = Some oauth_env,
          secrets = Some [''OAUTH2_CLIENT_CREDENTIALS_CLIENT_SECRET'' \<mapsto> ''s3cret'']\<rparr>"]
      getAuthorizationHeader_priority [where net = "replay []" and sent = "[]" and ctx =
        "\<lparr>environment = None, secrets = Some [''BASIC_USERNAME'' \<mapsto> ''u'']\<rparr>"]
    by (simp add: truthy_str_def or_empty_def show_str_def bearer_def startsWith_def
                  case_prod_beta split: sum.splits)
qed

theorem getAuthorizationHeader_prefix_witness:
  "getAuthorizationHeader (replay []) sample_context [] = (Inr ''Bearer test-access-token'', [])
   \<and> (startsWith ''Bearer test-access-token'' ''Bearer ''
        \<or> startsWith ''Bearer test-access-token'' ''Basic '')
   \<and> getAuthorizationHeader (replay [])
         \<lparr>environment = None, secrets = Some [''BEARER_AUTH_TOKEN'' \<mapsto> ''Bearer abc'']\<rparr> []
       = (Inr ''Bearer abc'', [])
   \<and> getAuthorizationHeader (replay [])
         \<lparr>environment = None,
          secrets = Some [''OAUTH2_AUTHORIZATION_CODE_ACCESS_TOKEN'' \<mapsto> ''Bearer abc'']\<rparr> []
       = (Inr ''Bearer abc'', [])
   \<and> getAuthorizationHeader (replay [])
         \<lparr>environment = None,
          secrets = Some [''OAUTH2_AUTHORIZATION_CODE_ACCESS_TOKEN'' \<mapsto> ''abc'']\<rparr> []
       = (Inr ''Bearer abc'', [])"
proof -
  have plain: "getAuthorizationHeader (replay []) sample_context []
                 = (Inr ''Bearer test-access-token'', [])"
    using getAuthorizationHeader_prefix [where net = "replay []" and ctx = sample_context
        and sent = "[]" and t = "''test-access-token''"]
    by (simp add: sample_context_def or_empty_def startsWith_def)
  show ?thesis
    using plain
      getAuthorizationHeader_prefix [where net = "replay []" and ctx = sample_context
        and sent = "[]" and h = "''Bearer test-access-token''" and sent' = "[]"]
      getAuthorizationHeader_prefix [where net = "replay []" and sent = "[]"
        and t = "''Bearer abc''" and ctx =
        "\<lparr>environment = None, secrets = Some [''BEARER_AUTH_TOKEN'' \<mapsto> ''Bearer abc'']\<rparr>"]
      getAuthorizationHeader_prefix [where net = "replay []" and sent = "[]"
        and t = "''Bearer abc''" and ctx =
        "\<lparr>environment = None,
          secrets = Some [''OAUTH2_AUTHORIZATION_CODE_ACCESS_TOKEN'' \<mapsto> ''Bearer abc'']\<rparr>"]
      getAuthorizationHeader_prefix [where net = "replay []" and sent = "[]"
        and t = "''abc''" and ctx =
        "\<lparr>environment = None,
          secrets = Some [''OAUTH2_AUTHORIZATION_CODE_ACCESS_TOKEN'' \<mapsto> ''abc'']\<rparr>"]
    by (simp add: or_empty_def truthy_str_def startsWith_def)
qed

section \<open>The error entry point\<close>

text \<open>
  C3, as the code has it. The error entry point of the action throws the error it is
  given, whatever its message. The entry point of the variant reads the message in two
  steps: a message that contains \<^verbatim>\<open>429\<close>, \<^verbatim>\<open>502\<close>, \<^verbatim>\<open>503\<close> or \<^verbatim>\<open>504\<close> asks for a retry, also
  when it contains one of the other marks; of the remaining messages one that contains
  \<^verbatim>\<open>401\<close>, \<^verbatim>\<open>403\<close>, \<^verbatim>\<open>is required\<close> or \<^verbatim>\<open>not found\<close> is thrown again, and any other asks
  for a retry. Neither entry point sends a request.
\<close>

theorem error_handler_classification:
  fixes params :: error_params
  defines "msg \<equiv> message (error params)"
  defines "retryable \<equiv> includes_str msg ''429'' \<or> includes_str msg ''502''
                        \<or> includes_str msg ''503'' \<or> includes_str msg ''504''"
  defines "fatal \<equiv> includes_str msg ''401'' \<or> includes_str msg ''403''
                    \<or> includes_str msg ''is required'' \<or> includes_str msg ''not found''"
  shows
  "error_handler params ctx sent = (Inl (error params), sent)
   \<and> (retryable \<longrightarrow> error_handler_variant params ctx sent
                        = (Inr (JObj [(''status'', JStr ''retry_requested'')]), sent))
   \<and> (\<not> retryable \<and> fatal
        \<longrightarrow> error_handler_variant params ctx sent = (Inl (error params), sent))
   \<and> (\<not> retryable \<and> \<not> fatal
        \<longrightarrow> error_handler_variant params ctx sent
            = (Inr (JObj [(''status'', JStr ''retry_requested'')]), sent))"
  unfolding msg_def retryable_def fatal_def
  by (simp add: error_handler_def error_handler_variant_def Let_def)

theorem error_handler_classification_witness:
  "error_handler_variant \<lparr>error = Error ''Request failed: 503 Service Unavailable''\<rparr>
       sample_context []
     = (Inr (JObj [(''status'', JStr ''retry_requested'')]), [])
   \<and> error_handler_variant \<lparr>error = Error ''User not found: test.user@example.com''\<rparr>
       sample_context []
     = (Inl (Error ''User not found: test.user@example.com''), [])
   \<and> error_handler_variant \<lparr>error = Error ''Test error''\<rparr> sample_context []
     = (Inr (JObj [(''status'', JStr ''retry_requested'')]), [])"
proof -
  have marks:
    "includes_str ''Request failed: 503 Service Unavailable'' ''503''"
    "\<not> includes_str ''User not found: test.user@example.com'' ''429''"
    "\<not> includes_str ''User not found: test.user@example.com'' ''502''"
    "\<not> includes_str ''User not found: test.user@example.com'' ''503''"
    "\<not> includes_str ''User not found: test.user@example.com'' ''504''"
    "includes_str ''User not found: test.user@example.com'' ''not found''"
    "\<not> includes_str ''Test error'' ''429''" "\<not> includes_str ''Test error'' ''502''"
    "\<not> includes_str ''Test error'' ''503''" "\<not> includes_str ''Test error'' ''504''"
    "\<not> includes_str ''Test error'' ''401''" "\<not> includes_str ''Test error'' ''403''"
    "\<not> includes_str ''Test error'' ''is required''"
    "\<not> includes_str ''Test error'' ''not found''"
    by code_simp+
  show ?thesis
    using marks
      error_handler_classification [where ctx = sample_context and sent = "[]"
        and params = "\<lparr>error = Error ''Request failed: 503 Service Unavailable''\<rparr>"]
      error_handler_classification [where ctx = sample_context and sent = "[]"
        and params = "\<lparr>error = Error ''User not found: test.user@example.com''\<rparr>"]
      error_handler_classification [where ctx = sample_context and sent = "[]"
        and params = "\<lparr>error = Error ''Test error''\<rparr>"]
    by simp
qed

text \<open>
  The claim as it is written fails on both entry points. The action throws an error
  whose message has none of the marks, and one whose message contains \<^verbatim>\<open>503\<close>, where the
  claim expects a retry; the variant asks for a retry on a message that contains \<^verbatim>\<open>401\<close>,
  where the claim expects the error thrown again, because the message contains \<^verbatim>\<open>429\<close>
  too.
\<close>

theorem error_handler_counterexample:
  "\<not> (includes_str ''Test error'' ''429'' \<or> includes_str ''Test error'' ''502''
       \<or> includes_str ''Test error'' ''503'' \<or> includes_str ''Test error'' ''504''
       \<or> includes_str ''Test error'' ''401'' \<or> includes_str ''Test error'' ''403''
       \<or> includes_str ''Test error'' ''is required'' \<or> includes_str ''Test error'' ''not found'')
   \<and> error_handler \<lparr>error = Error ''Test error''\<rparr> sample_context []
       = (Inl (Error ''Test error''), [])
   \<and> includes_str ''Request failed: 503 Service Unavailable'' ''503''
   \<and> error_handler \<lparr>error = Error ''Request failed: 503 Service Unavailable''\<rparr> sample_context []
       = (Inl (Error ''Request failed: 503 Service Unavailable''), [])
   \<and> includes_str ''Failed to query user u429@example.com: 401 Unauthorized'' ''401''
   \<and> error_handler_variant
         \<lparr>error = Error ''Failed to query user u429@example.com: 401 Unauthorized''\<rparr>
         sample_context []
       = (Inr (JObj [(''status'', JStr ''retry_requested'')]), [])"
  by code_simp

section \<open>The steps of invoke\<close>

lemma printableE: "printable v \<Longrightarrow> \<exists>s. to_string v = Inr s"
  by (auto simp: printable_def split: sum.splits)

lemma createPermissionSetAssignment_sends:
  "snd (createPermissionSetAssignment net userId permissionSetId baseUrl authHeader sent) \<noteq> sent"
  by (simp add: createPermissionSetAssignment_def Let_def)

lemma invoke_fails_early:
  "getBaseURL (Some params) ctx = Inl e \<Longrightarrow> invoke net params ctx sent = (Inl e, sent)"
  "getBaseURL (Some params) ctx = Inr baseUrl
     \<Longrightarrow> getAuthorizationHeader net ctx sent = (Inl e, sent1)
     \<Longrightarrow> invoke net params ctx sent = (Inl e, sent1)"
  by (simp_all add: invoke_def Let_def bind_io_apply)

text \<open>
  Unless the query is answered, the answer is ok, its body has records that are present
  and not of length 0, and the first of them has an Id that can be printed, the run ends
  in an error with the query as the last request.
\<close>

lemma invoke_stops_after_query:
  assumes base: "getBaseURL (Some params) ctx = Inr baseUrl"
    and auth: "getAuthorizationHeader net ctx sent = (Inr authHeader, sent1)"
    and query: "findUserByUsername net (params ''username'') baseUrl authHeader sent1
                  = (answer, sent2)"
    and unready: "\<not> (\<exists>userResponse userResult records record0 userId.
             answer = Inr userResponse \<and> ok userResponse
             \<and> json userResponse = Inr userResult
             \<and> getprop userResult ''records'' = Inr records
             \<and> truthy records \<and> getprop records ''length'' \<noteq> Inr (JNum ''0'')
             \<and> getprop records ''0'' = Inr record0
             \<and> getprop record0 ''Id'' = Inr userId
             \<and> printable userId)"
  shows "\<exists>e. invoke net params ctx sent = (Inl e, sent2)"
proof -
  note run = invoke_def Let_def bind_io_apply base auth query
  show ?thesis
  proof (cases answer)
    case (Inl e)
    then show ?thesis
      by (simp add: run)
  next
    case answer: (Inr userResponse)
    show ?thesis
    proof (cases "ok userResponse")
      case False
      with answer show ?thesis
        by (simp add: run)
    next
      case ok: True
      show ?thesis
      proof (cases "json userResponse")
        case (Inl e)
        with answer ok show ?thesis
          by (simp add: run)
      next
        case body: (Inr userResult)
        show ?thesis
        proof (cases "getprop userResult ''records''")
          case (Inl e)
          with answer ok body show ?thesis
            by (simp add: run)
        next
          case records: (Inr records)
          show ?thesis
          proof (cases "truthy records \<and> getprop records ''length'' \<noteq> Inr (JNum ''0'')")
            case False
            with answer ok body records show ?thesis
              by (auto simp: run)
          next
            case present: True
            show ?thesis
            proof (cases "getprop records ''0''")
              case (Inl e)
              with answer ok body records present show ?thesis
                by (simp add: run)
            next
              case first: (Inr record0)
              show ?thesis
              proof (cases "getprop record0 ''Id''")
                case (Inl e)
                with answer ok body records present first show ?thesis
                  by (simp add: run)
              next
                case user: (Inr userId)
                show ?thesis
                proof (cases "to_string userId")
                  case (Inl e)
                  with answer ok body records present first user show ?thesis
                    by (simp add: run)
                next
                  case (Inr s)
                  then have "printable userId"
                    by (simp add: printable_def)
                  with answer ok body records present first user unready show ?thesis
                    by blast
                qed
              qed
            qed
          qed
        qed
      qed
    qed
  qed
qed

text \<open>Once the assignment request is sent, no other request follows.\<close>

lemma invoke_trace_after_post:
  assumes base: "getBaseURL (Some params) ctx = Inr baseUrl"
    and auth: "getAuthorizationHeader net ctx sent = (Inr authHeader, sent1)"
    and query: "findUserByUsername net (params ''username'') baseUrl authHeader sent1
                  = (Inr userResponse, sent2)"
    and ok: "ok userResponse"
    and body: "json userResponse = Inr userResult"
    and records: "getprop userResult ''records'' = Inr records"
    and present: "truthy records" "getprop records ''length'' \<noteq> Inr (JNum ''0'')"
    and first: "getprop records ''0'' = Inr record0"
    and user: "getprop record0 ''Id'' = Inr userId"
    and prints: "printable userId"
    and post: "createPermissionSetAssignment net userId (params ''permissionSetId'')
                 baseUrl authHeader sent2 = (reply, sent3)"
  shows "snd (invoke net params ctx sent) = sent3"
proof -
  from prints obtain s where s: "to_string userId = Inr s"
    by (auto dest: printableE)
  show ?thesis
    by (simp add: invoke_def Let_def bind_io_apply base auth query ok body records present
                  first user s post split: sum.splits)
qed

text \<open>What a result holds, when the run returns one.\<close>

lemma invoke_result_shape:
  assumes base: "getBaseURL (Some params) ctx = Inr baseUrl"
    and auth: "getAuthorizationHeader net ctx sent = (Inr authHeader, sent1)"
    and query: "findUserByUsername net (params ''username'') baseUrl authHeader sent1
                  = (Inr userResponse, sent2)"
    and ok: "ok userResponse"
    and body: "json userResponse = Inr userResult"
    and records: "getprop userResult ''records'' = Inr records"
    and present: "truthy records" "getprop records ''length'' \<noteq> Inr (JNum ''0'')"
    and first: "getprop records ''0'' = Inr record0"
    and user: "getprop record0 ''Id'' = Inr userId"
    and prints: "printable userId"
  shows "case fst (invoke net params ctx sent) of
           Inl e \<Rightarrow> True
         | Inr r \<Rightarrow> getprop r ''username'' = Inr (js_of (params ''username''))
                  \<and> getprop r ''permissionSetId'' = Inr (js_of (params ''permissionSetId''))
                  \<and> getprop r ''userId'' = Inr userId"
proof -
  from prints obtain s where s: "to_string userId = Inr s"
    by (auto dest: printableE)
  show ?thesis
    by (simp add: invoke_def Let_def bind_io_apply base auth query ok body records present
                  first user s split: sum.splits prod.splits)
qed

text \<open>The duplicate test on lists of error entries.\<close>

lemma duplicate_callback_entry:
  "error_entry e \<or> duplicate_entry e \<Longrightarrow> duplicate_callback e = Inr (duplicate_entry e)"
  by (cases e)
     (auto simp: duplicate_callback_def error_entry_def duplicate_entry_def nullish_def
           split: sum.splits jsval.splits)

lemma array_some_finds:
  "\<forall>e\<in>set pre. error_entry e \<Longrightarrow> duplicate_entry d
     \<Longrightarrow> array_some duplicate_callback (pre @ d # post) = Inr True"
  by (induction pre) (simp_all add: duplicate_callback_entry)

lemma array_some_none:
  "\<forall>e\<in>set es. error_entry e \<and> \<not> duplicate_entry e
     \<Longrightarrow> array_some duplicate_callback es = Inr False"
  by (induction es) (simp_all add: duplicate_callback_entry)

lemma error_entry_message:
  "error_entry e \<Longrightarrow>
     \<not> nullish e \<and> (\<exists>m. getprop e ''message'' = Inr m
                          \<and> (m = JUndefined \<or> m = JNull \<or> (\<exists>t. m = JStr t)))"
  by (auto simp: error_entry_def split: sum.splits jsval.splits)

lemma printable_or_unknown:
  "m = JUndefined \<or> m = JNull \<or> (\<exists>t. m = JStr t)
     \<Longrightarrow> printable (or_val m (JStr ''Unknown error''))"
  by (auto simp: or_val_def printable_def)

lemma first_message_entry:
  assumes "\<forall>e\<in>set es. error_entry e"
  shows "\<exists>m. first_message (JArr es) = Inr m \<and> printable (or_val m (JStr ''Unknown error''))"
proof (cases es)
  case Nil
  then show ?thesis
    by (simp add: first_message_def printable_or_unknown)
next
  case (Cons e rest)
  with assms have "error_entry e"
    by simp
  then obtain m where "\<not> nullish e" "getprop e ''message'' = Inr m"
    "m = JUndefined \<or> m = JNull \<or> (\<exists>t. m = JStr t)"
    using error_entry_message by blast
  with Cons show ?thesis
    by (simp add: first_message_def nullish_def printable_or_unknown)
qed

lemma failed_to_create_prefix:
  "startsWith (failed_to_create @ t) ''Failed to create permission set assignment''"
  by (simp add: failed_to_create_def startsWith_def)

text \<open>The sample run: its base URL, its header, and the answers it gets.\<close>

lemma sample_base:
  "getBaseURL (Some sample_params) sample_context = Inr ''https://test.my.salesforce.com''"
  by code_simp

lemma sample_auth:
  "getAuthorizationHeader net sample_context sent = (Inr ''Bearer test-access-token'', sent)"
  by (simp add: getAuthorizationHeader_def sample_context_def or_empty_def truthy_str_def
                show_str_def bearer_def startsWith_def)

lemma sample_query:
  "\<exists>req. findUserByUsername (replay (r # rs)) username baseUrl authHeader [] = (Inr r, [req])"
  by (simp add: findUserByUsername_def Let_def replay_def)

lemma sample_post:
  "\<exists>req'. createPermissionSetAssignment (replay [r1, r2]) userId permissionSetId baseUrl
             authHeader [req] = (Inr r2, [req, req'])"
  by (simp add: createPermissionSetAssignment_def Let_def replay_def)

lemma user_found_facts:
  "ok user_found"
  "json user_found = Inr (JObj [(''records'', JArr [JObj [(''Id'', JStr ''005000000000001'')]])])"
  by (simp_all add: user_found_def json_response_def)

section \<open>No user\<close>

text \<open>
  C5, as the code has it. When the user query is answered with an ok response whose body
  is JSON from which \<^verbatim>\<open>records\<close> can be read, and \<^verbatim>\<open>records\<close> is missing there (the property
  reads as \<^verbatim>\<open>undefined\<close>), is \<^verbatim>\<open>null\<close> or is the empty list, \<^verbatim>\<open>invoke\<close> throws an error whose
  message is \<^verbatim>\<open>User not found: \<close> followed by the username of the parameters (a missing
  username prints as \<^verbatim>\<open>undefined\<close>), and the query is the last request sent.
\<close>

theorem invoke_user_not_found:
  assumes base: "getBaseURL (Some params) ctx = Inr baseUrl"
    and auth: "getAuthorizationHeader net ctx sent = (Inr authHeader, sent1)"
    and query: "findUserByUsername net (params ''username'') baseUrl authHeader sent1
                  = (Inr userResponse, sent2)"
    and ok: "ok userResponse"
    and body: "json userResponse = Inr userResult"
    and none: "getprop userResult ''records'' = Inr JUndefined
               \<or> getprop userResult ''records'' = Inr JNull
               \<or> getprop userResult ''records'' = Inr (JArr [])"
  shows "invoke net params ctx sent
           = (Inl (Error (''User not found: ''
                          @ (case params ''username'' of None \<Rightarrow> ''undefined'' | Some u \<Rightarrow> u))),
              sent2)"
  using none
  by (auto simp: invoke_def Let_def bind_io_apply base auth query ok body show_str_def)

theorem invoke_user_not_found_witness:
  "fst (invoke (replay [no_user]) sample_params sample_context [])
     = Inl (Error ''User not found: test.user@example.com'')"
proof -
  obtain req where query:
    "findUserByUsername (replay [no_user]) (sample_params ''username'')
       ''https://test.my.salesforce.com'' ''Bearer test-access-token'' [] = (Inr no_user, [req])"
    using sample_query by blast
  have ok: "ok no_user"
    and body: "json no_user = Inr (JObj [(''totalSize'', JNum ''0''), (''done'', JBool True),
                                         (''records'', JArr [])])"
    by (simp_all add: no_user_def json_response_def)
  have none: "getprop (JObj [(''totalSize'', JNum ''0''), (''done'', JBool True),
                             (''records'', JArr [])]) ''records'' = Inr (JArr [])"
    by simp
  have name: "sample_params ''username'' = Some ''test.user@example.com''"
    by (simp add: sample_params_def)
  from invoke_user_not_found [OF sample_base sample_auth query ok body] none
  show ?thesis
    by (simp add: name)
qed

text \<open>
  The claim as it is written fails on an ok answer whose body is the JSON text \<^verbatim>\<open>null\<close>,
  and on one whose body is not JSON. Neither body has a \<^verbatim>\<open>records\<close> field, and \<^verbatim>\<open>invoke\<close>
  throws after the query, but not the error of the claim: a \<^verbatim>\<open>TypeError\<close> from reading
  \<^verbatim>\<open>records\<close> of \<^verbatim>\<open>null\<close>, and the \<^verbatim>\<open>SyntaxError\<close> of \<^verbatim>\<open>response.json()\<close>.
\<close>

theorem invoke_user_not_found_counterexample:
  "ok null_body \<and> json null_body = Inr JNull
   \<and> map http_method (snd (invoke (replay [null_body]) sample_params sample_context []))
       = [''GET'']
   \<and> fst (invoke (replay [null_body]) sample_params sample_context [])
       = Inl (TypeError (''Cannot read properties of null (reading ''
                         @ [CHR 0x27] @ ''records'' @ [CHR 0x27] @ '')''))
   \<and> fst (invoke (replay [null_body]) sample_params sample_context [])
       \<noteq> Inl (Error ''User not found: test.user@example.com'')
   \<and> ok html_body
   \<and> map http_method (snd (invoke (replay [html_body]) sample_params sample_context []))
       = [''GET'']
   \<and> fst (invoke (replay [html_body]) sample_params sample_context [])
       = Inl (JSError ''SyntaxError'' ''Unexpected token < in JSON at position 0'')"
  by code_simp

section \<open>A duplicate assignment\<close>

text \<open>
  C1, as the code has it. Let the user query be answered with an ok response whose
  records are a list, the first record being neither \<^verbatim>\<open>null\<close> nor \<^verbatim>\<open>undefined\<close> and its Id
  printable (a string, say). If the assignment request is answered with status 400 and a
  JSON list in which some element is a duplicate entry, and every element before that
  one is an error entry, then \<^verbatim>\<open>invoke\<close> returns: the result has status \<^verbatim>\<open>success\<close> and the
  assignment id \<^verbatim>\<open>null\<close>.
\<close>

theorem invoke_duplicate_is_success:
  assumes base: "getBaseURL (Some params) ctx = Inr baseUrl"
    and auth: "getAuthorizationHeader net ctx sent = (Inr authHeader, sent1)"
    and query: "findUserByUsername net (params ''username'') baseUrl authHeader sent1
                  = (Inr userResponse, sent2)"
    and ok: "ok userResponse"
    and body: "json userResponse = Inr userResult"
    and records: "getprop userResult ''records'' = Inr (JArr (record0 # others))"
    and user: "getprop record0 ''Id'' = Inr userId"
    and prints: "printable userId"
    and post: "createPermissionSetAssignment net userId (params ''permissionSetId'')
                 baseUrl authHeader sent2 = (Inr assignmentResponse, sent3)"
    and bad_request: "status assignmentResponse = 400"
    and errors: "json assignmentResponse = Inr (JArr (before @ d # after))"
    and entries: "\<forall>e\<in>set before. error_entry e"
    and dup: "duplicate_entry d"
  shows "\<exists>r. invoke net params ctx sent = (Inr r, sent3)
             \<and> getprop r ''status'' = Inr (JStr ''success'')
             \<and> getprop r ''assignmentId'' = Inr JNull"
proof -
  from prints obtain s where s: "to_string userId = Inr s"
    by (auto dest: printableE)
  have scan: "some_of (JArr (before @ d # after)) duplicate_callback = Inr True"
    by (simp add: some_of_def array_some_finds entries dup)
  show ?thesis
    by (simp add: invoke_def Let_def bind_io_apply base auth query ok body records user s
                  post bad_request errors scan)
qed

theorem invoke_duplicate_is_success_witness:
  "\<exists>r sent3. invoke (replay [user_found, duplicate_reported]) sample_params sample_context []
                 = (Inr r, sent3)
       \<and> getprop r ''status'' = Inr (JStr ''success'')
       \<and> getprop r ''assignmentId'' = Inr JNull"
proof -
  obtain req where query:
    "findUserByUsername (replay [user_found, duplicate_reported]) (sample_params ''username'')
       ''https://test.my.salesforce.com'' ''Bearer test-access-token'' [] = (Inr user_found, [req])"
    using sample_query by blast
  obtain req' where post:
    "createPermissionSetAssignment (replay [user_found, duplicate_reported])
       (JStr ''005000000000001'') (sample_params ''permissionSetId'')
       ''https://test.my.salesforce.com'' ''Bearer test-access-token'' [req]
     = (Inr duplicate_reported, [req, req'])"
    using sample_post by blast
  have records: "getprop (JObj [(''records'', JArr [JObj [(''Id'', JStr ''005000000000001'')]])])
                   ''records'' = Inr (JArr (JObj [(''Id'', JStr ''005000000000001'')] # []))"
    and user: "getprop (JObj [(''Id'', JStr ''005000000000001'')]) ''Id''
                 = Inr (JStr ''005000000000001'')"
    and prints: "printable (JStr ''005000000000001'')"
    by (simp_all add: printable_def)
  have bad_request: "status duplicate_reported = 400"
    and errors: "json duplicate_reported
       = Inr (JArr ([JObj [(''errorCode'', JStr ''FIELD_INTEGRITY_EXCEPTION''),
                           (''message'', JStr ''Assignee is inactive'')]]
                    @ JObj [(''message'', JStr ''Duplicate PermissionSetAssignment'')] # []))"
    by (simp_all add: duplicate_reported_def json_response_def)
  have entries: "\<forall>e\<in>set [JObj [(''errorCode'', JStr ''FIELD_INTEGRITY_EXCEPTION''),
                                  (''message'', JStr ''Assignee is inactive'')]]. error_entry e"
    by (simp add: error_entry_def nullish_def)
  have "includes_str (toLowerCase ''Duplicate PermissionSetAssignment'') ''duplicate''"
    by code_simp
  then have dup: "duplicate_entry (JObj [(''message'', JStr ''Duplicate PermissionSetAssignment'')])"
    by (simp add: duplicate_entry_def)
  from invoke_duplicate_is_success [OF sample_base sample_auth query user_found_facts records
      user prints post bad_request errors entries dup]
  show ?thesis
    by blast
qed

text \<open>
  The claim as it is written fails on a list whose second element is a duplicate entry
  and whose first element is \<^verbatim>\<open>null\<close>: reading the error code of \<^verbatim>\<open>null\<close> throws.
\<close>

theorem invoke_duplicate_counterexample:
  "ok user_found
   \<and> json user_found = Inr (JObj [(''records'', JArr [JObj [(''Id'', JStr ''005000000000001'')]])])
   \<and> status duplicate_after_null = 400
   \<and> json duplicate_after_null
       = Inr (JArr [JNull,
                    JObj [(''errorCode'', JStr ''DUPLICATE_VALUE''),
                          (''message'', JStr ''Duplicate permission set assignment'')]])
   \<and> map http_method
         (snd (invoke (replay [user_found, duplicate_after_null]) sample_params sample_context []))
       = [''GET'', ''POST'']
   \<and> fst (invoke (replay [user_found, duplicate_after_null]) sample_params sample_context [])
       = Inl (cannot_read ''null'' ''errorCode'')"
  by code_simp

section \<open>The answer to the assignment request\<close>

text \<open>
  C6, as the code has it. Let the user query be answered with an ok response whose
  records are a list, the first record being neither \<^verbatim>\<open>null\<close> nor \<^verbatim>\<open>undefined\<close> and its Id
  printable. If the assignment request is answered with status 201 and a JSON body,
  other than \<^verbatim>\<open>null\<close>, whose id is printable (a string, or none), \<^verbatim>\<open>invoke\<close> returns a result
  with status \<^verbatim>\<open>success\<close> and that id as assignment id. If it is answered with status 400
  and a JSON list of error entries none of which is a duplicate entry, or with a status
  other than 201 and 400, \<^verbatim>\<open>invoke\<close> throws an error whose message starts with
  \<^verbatim>\<open>Failed to create permission set assignment\<close>.
\<close>

theorem invoke_assignment_outcome:
  assumes base: "getBaseURL (Some params) ctx = Inr baseUrl"
    and auth: "getAuthorizationHeader net ctx sent = (Inr authHeader, sent1)"
    and query: "findUserByUsername net (params ''username'') baseUrl authHeader sent1
                  = (Inr userResponse, sent2)"
    and ok: "ok userResponse"
    and body: "json userResponse = Inr userResult"
    and records: "getprop userResult ''records'' = Inr (JArr (record0 # others))"
    and user: "getprop record0 ''Id'' = Inr userId"
    and prints: "printable userId"
    and post: "createPermissionSetAssignment net userId (params ''permissionSetId'')
                 baseUrl authHeader sent2 = (Inr assignmentResponse, sent3)"
  shows "(status assignmentResponse = 201 \<and> json assignmentResponse = Inr assignmentResult
            \<and> getprop assignmentResult ''id'' = Inr assignmentId \<and> printable assignmentId
          \<longrightarrow> (\<exists>r. invoke net params ctx sent = (Inr r, sent3)
                   \<and> getprop r ''status'' = Inr (JStr ''success'')
                   \<and> getprop r ''assignmentId'' = Inr assignmentId))
       \<and> (status assignmentResponse = 400 \<and> json assignmentResponse = Inr (JArr es)
            \<and> (\<forall>e\<in>set es. error_entry e \<and> \<not> duplicate_entry e)
          \<longrightarrow> (\<exists>msg. invoke net params ctx sent = (Inl (Error msg), sent3)
                   \<and> startsWith msg ''Failed to create permission set assignment''))
       \<and> (status assignmentResponse \<noteq> 201 \<and> status assignmentResponse \<noteq> 400
          \<longrightarrow> (\<exists>msg. invoke net params ctx sent = (Inl (Error msg), sent3)
                   \<and> startsWith msg ''Failed to create permission set assignment''))"
proof -
  from prints obtain s where s: "to_string userId = Inr s"
    by (auto dest: printableE)
  note run = invoke_def Let_def bind_io_apply base auth query ok body records user s post
  have created: "\<exists>r. invoke net params ctx sent = (Inr r, sent3)
                   \<and> getprop r ''status'' = Inr (JStr ''success'')
                   \<and> getprop r ''assignmentId'' = Inr assignmentId"
    if "status assignmentResponse = 201" "json assignmentResponse = Inr assignmentResult"
       "getprop assignmentResult ''id'' = Inr assignmentId" "printable assignmentId"
  proof -
    from that(4) obtain t where "to_string assignmentId = Inr t"
      by (auto dest: printableE)
    with that show ?thesis
      by (simp add: run)
  qed
  have rejected: "\<exists>msg. invoke net params ctx sent = (Inl (Error msg), sent3)
                   \<and> startsWith msg ''Failed to create permission set assignment''"
    if "status assignmentResponse = 400" "json assignmentResponse = Inr (JArr es)"
       "\<forall>e\<in>set es. error_entry e \<and> \<not> duplicate_entry e"
  proof -
    from that(3) have scan: "some_of (JArr es) duplicate_callback = Inr False"
      by (simp add: some_of_def array_some_none)
    from that(3) obtain m t where "first_message (JArr es) = Inr m"
      "to_string (or_val m (JStr ''Unknown error'')) = Inr t"
      using first_message_entry [of es] by (auto dest: printableE)
    with that scan show ?thesis
      by (simp add: run failed_to_create_prefix)
  qed
  have other: "\<exists>msg. invoke net params ctx sent = (Inl (Error msg), sent3)
                   \<and> startsWith msg ''Failed to create permission set assignment''"
    if "status assignmentResponse \<noteq> 201" "status assignmentResponse \<noteq> 400"
    using that by (simp add: run failed_to_create_prefix)
  from created rejected other show ?thesis
    by blast
qed

theorem invoke_assignment_outcome_witness:
  "(\<exists>r sent3. invoke (replay [user_found, assignment_created]) sample_params sample_context []
                  = (Inr r, sent3)
        \<and> getprop r ''status'' = Inr (JStr ''success'')
        \<and> getprop r ''assignmentId'' = Inr (JStr ''PSA000000000001''))
   \<and> (\<exists>msg sent3. invoke (replay [user_found, field_missing]) sample_params sample_context []
                  = (Inl (Error msg), sent3)
        \<and> startsWith msg ''Failed to create permission set assignment'')
   \<and> (\<exists>msg sent3. invoke (replay [user_found, server_error]) sample_params sample_context []
                  = (Inl (Error msg), sent3)
        \<and> startsWith msg ''Failed to create permission set assignment'')"
proof -
  have records: "getprop (JObj [(''records'', JArr [JObj [(''Id'', JStr ''005000000000001'')]])])
                   ''records'' = Inr (JArr (JObj [(''Id'', JStr ''005000000000001'')] # []))"
    and user: "getprop (JObj [(''Id'', JStr ''005000000000001'')]) ''Id''
                 = Inr (JStr ''005000000000001'')"
    and prints: "printable (JStr ''005000000000001'')"
    by (simp_all add: printable_def)
  obtain req where query:
    "findUserByUsername (replay [user_found, assignment_created]) (sample_params ''username'')
       ''https://test.my.salesforce.com'' ''Bearer test-access-token'' []
     = (Inr user_found, [req])"
    using sample_query by blast
  obtain req' where post:
    "createPermissionSetAssignment (replay [user_found, assignment_created])
       (JStr ''005000000000001'') (sample_params ''permissionSetId'')
       ''https://test.my.salesforce.com'' ''Bearer test-access-token'' [req]
     = (Inr assignment_created, [req, req'])"
    using sample_post by blast
  have created: "status assignment_created = 201"
    "json assignment_created
       = Inr (JObj [(''id'', JStr ''PSA000000000001''), (''success'', JBool True)])"
    "getprop (JObj [(''id'', JStr ''PSA000000000001''), (''success'', JBool True)]) ''id''
       = Inr (JStr ''PSA000000000001'')"
    "printable (JStr ''PSA000000000001'')"
    by (simp_all add: assignment_created_def json_response_def printable_def)
  obtain req2 where query2:
    "findUserByUsername (replay [user_found, field_missing]) (sample_params ''username'')
       ''https://test.my.salesforce.com'' ''Bearer test-access-token'' []
     = (Inr user_found, [req2])"
    using sample_query by blast
  obtain req2' where post2:
    "createPermissionSetAssignment (replay [user_found, field_missing])
       (JStr ''005000000000001'') (sample_params ''permissionSetId'')
       ''https://test.my.salesforce.com'' ''Bearer test-access-token'' [req2]
     = (Inr field_missing, [req2, req2'])"
    using sample_post by blast
  have missing: "status field_missing = 400"
    "json field_missing = Inr (JArr [JObj [(''errorCode'', JStr ''REQUIRED_FIELD_MISSING''),
                                           (''message'', JStr ''Missing required field'')]])"
    by (simp_all add: field_missing_def json_response_def)
  have "\<not> includes_str (toLowerCase ''Missing required field'') ''duplicate''"
    by code_simp
  then have entries:
    "\<forall>e\<in>set [JObj [(''errorCode'', JStr ''REQUIRED_FIELD_MISSING''),
                     (''message'', JStr ''Missing required field'')]].
       error_entry e \<and> \<not> duplicate_entry e"
    by (simp add: error_entry_def duplicate_entry_def nullish_def)
  obtain req3 where query3:
    "findUserByUsername (replay [user_found, server_error]) (sample_params ''username'')
       ''https://test.my.salesforce.com'' ''Bearer test-access-token'' []
     = (Inr user_found, [req3])"
    using sample_query by blast
  obtain req3' where post3:
    "createPermissionSetAssignment (replay [user_found, server_error])
       (JStr ''005000000000001'') (sample_params ''permissionSetId'')
       ''https://test.my.salesforce.com'' ''Bearer test-access-token'' [req3]
     = (Inr server_error, [req3, req3'])"
    using sample_post by blast
  have failed: "status server_error \<noteq> 201" "status server_error \<noteq> 400"
    by (simp_all add: server_error_def json_response_def)
  from invoke_assignment_outcome [OF sample_base sample_auth query user_found_facts records
      user prints post, where assignmentResult =
        "JObj [(''id'', JStr ''PSA000000000001''), (''success'', JBool True)]"
      and assignmentId = "JStr ''PSA000000000001''"]
    invoke_assignment_outcome [OF sample_base sample_auth query2 user_found_facts records
      user prints post2, where es = "[JObj [(''errorCode'', JStr ''REQUIRED_FIELD_MISSING''),
                                           (''message'', JStr ''Missing required field'')]]"]
    invoke_assignment_outcome [OF sample_base sample_auth query3 user_found_facts records
      user prints post3]
    created missing entries failed
  show ?thesis
    by blast
qed

text \<open>
  The claim as it is written fails on an answer with status 400 whose body is a JSON
  object, not a list: the duplicate test has no \<^verbatim>\<open>some\<close> to call, and the error thrown is a
  type error with another message.
\<close>

theorem invoke_assignment_counterexample:
  "ok user_found
   \<and> json user_found = Inr (JObj [(''records'', JArr [JObj [(''Id'', JStr ''005000000000001'')]])])
   \<and> status bad_request_object = 400
   \<and> json bad_request_object = Inr (JObj [(''message'', JStr ''Bad Request'')])
   \<and> map http_method
         (snd (invoke (replay [user_found, bad_request_object]) sample_params sample_context []))
       = [''GET'', ''POST'']
   \<and> fst (invoke (replay [user_found, bad_request_object]) sample_params sample_context [])
       = Inl (TypeError ''errorResult.some is not a function'')
   \<and> \<not> startsWith ''errorResult.some is not a function''
                     ''Failed to create permission set assignment''"
  by code_simp

section \<open>The assignment request waits for the user\<close>

text \<open>
  C4, as the code has it. Every run of \<^verbatim>\<open>invoke\<close> ends in one of three ways. It
  throws before the query is sent, because the base URL or the authorization header fails. Or it throws with the
  query as the last request sent. Or the assignment request is the last request sent,
  and then the query was answered before it with an ok response whose records are
  present and not empty: the value is truthy, its length is not 0, it has a first
  element that is neither \<^verbatim>\<open>null\<close> nor \<^verbatim>\<open>undefined\<close>, and when it is a list the list is not
  empty. Moreover, when the answer to the query is not ok, or its records are missing,
  \<^verbatim>\<open>null\<close> or the empty list, the run throws with the query as the last request sent.
\<close>

theorem invoke_assignment_gate:
  "(invoke net params ctx sent = (outcome, sent') \<longrightarrow>
      (\<exists>e. outcome = Inl e
          \<and> ((getBaseURL (Some params) ctx = Inl e \<and> sent' = sent)
             \<or> getAuthorizationHeader net ctx sent = (Inl e, sent')))
    \<or> (\<exists>baseUrl authHeader sent1 answer sent2.
          getBaseURL (Some params) ctx = Inr baseUrl
          \<and> getAuthorizationHeader net ctx sent = (Inr authHeader, sent1)
          \<and> findUserByUsername net (params ''username'') baseUrl authHeader sent1 = (answer, sent2)
          \<and> ((\<exists>e. outcome = Inl e \<and> sent' = sent2)
             \<or> (\<exists>userResponse userResult records record0 userId reply.
                   answer = Inr userResponse \<and> ok userResponse
                   \<and> json userResponse = Inr userResult
                   \<and> getprop userResult ''records'' = Inr records
                   \<and> truthy records \<and> getprop records ''length'' \<noteq> Inr (JNum ''0'')
                   \<and> (\<forall>xs. records = JArr xs \<longrightarrow> xs \<noteq> [])
                   \<and> getprop records ''0'' = Inr record0 \<and> \<not> nullish record0
                   \<and> getprop record0 ''Id'' = Inr userId
                   \<and> createPermissionSetAssignment net userId (params ''permissionSetId'')
                        baseUrl authHeader sent2 = (reply, sent')
                   \<and> sent' \<noteq> sent2))))
   \<and> (getBaseURL (Some params) ctx = Inr baseUrl
       \<and> getAuthorizationHeader net ctx sent = (Inr authHeader, sent1)
       \<and> findUserByUsername net (params ''username'') baseUrl authHeader sent1
           = (Inr userResponse, sent2)
       \<and> (\<not> ok userResponse
          \<or> (\<exists>userResult. json userResponse = Inr userResult
                \<and> (getprop userResult ''records'' = Inr JUndefined
                   \<or> getprop userResult ''records'' = Inr JNull
                   \<or> getprop userResult ''records'' = Inr (JArr []))))
      \<longrightarrow> (\<exists>e. invoke net params ctx sent = (Inl e, sent2)))"
proof (intro conjI impI)
  assume run: "invoke net params ctx sent = (outcome, sent')"
  let ?posted = "\<lambda>baseUrl authHeader answer sent2.
    \<exists>userResponse userResult records record0 userId reply.
       answer = Inr userResponse \<and> ok userResponse
       \<and> json userResponse = Inr userResult
       \<and> getprop userResult ''records'' = Inr records
       \<and> truthy records \<and> getprop records ''length'' \<noteq> Inr (JNum ''0'')
       \<and> (\<forall>xs. records = JArr xs \<longrightarrow> xs \<noteq> [])
       \<and> getprop records ''0'' = Inr record0 \<and> \<not> nullish record0
       \<and> getprop record0 ''Id'' = Inr userId
       \<and> createPermissionSetAssignment net userId (params ''permissionSetId'')
            baseUrl authHeader sent2 = (reply, sent')
       \<and> sent' \<noteq> sent2"
  show "(\<exists>e. outcome = Inl e
          \<and> ((getBaseURL (Some params) ctx = Inl e \<and> sent' = sent)
             \<or> getAuthorizationHeader net ctx sent = (Inl e, sent')))
    \<or> (\<exists>baseUrl authHeader sent1 answer sent2.
          getBaseURL (Some params) ctx = Inr baseUrl
          \<and> getAuthorizationHeader net ctx sent = (Inr authHeader, sent1)
          \<and> findUserByUsername net (params ''username'') baseUrl authHeader sent1 = (answer, sent2)
          \<and> ((\<exists>e. outcome = Inl e \<and> sent' = sent2) \<or> ?posted baseUrl authHeader answer sent2))"
  proof (cases "getBaseURL (Some params) ctx")
    case (Inl e)
    with run invoke_fails_early(1) [of params ctx e net sent] show ?thesis
      by auto
  next
    case base: (Inr baseUrl)
    obtain a sent1 where auth: "getAuthorizationHeader net ctx sent = (a, sent1)"
      by (cases "getAuthorizationHeader net ctx sent")
    show ?thesis
    proof (cases a)
      case (Inl e)
      with run auth invoke_fails_early(2) [OF base, of net sent e sent1] show ?thesis
        by auto
    next
      case (Inr authHeader)
      with auth have auth: "getAuthorizationHeader net ctx sent = (Inr authHeader, sent1)"
        by simp
      obtain answer sent2 where query:
        "findUserByUsername net (params ''username'') baseUrl authHeader sent1 = (answer, sent2)"
        by (cases "findUserByUsername net (params ''username'') baseUrl authHeader sent1")
      have "(\<exists>e. outcome = Inl e \<and> sent' = sent2) \<or> ?posted baseUrl authHeader answer sent2"
      proof (cases "\<exists>userResponse userResult records record0 userId.
             answer = Inr userResponse \<and> ok userResponse
             \<and> json userResponse = Inr userResult
             \<and> getprop userResult ''records'' = Inr records
             \<and> truthy records \<and> getprop records ''length'' \<noteq> Inr (JNum ''0'')
             \<and> getprop records ''0'' = Inr record0
             \<and> getprop record0 ''Id'' = Inr userId
             \<and> printable userId")
        case False
        from invoke_stops_after_query [OF base auth query False] run show ?thesis
          by auto
      next
        case True
        then obtain userResponse userResult records record0 userId where ready:
          "answer = Inr userResponse" "ok userResponse" "json userResponse = Inr userResult"
          "getprop userResult ''records'' = Inr records"
          "truthy records" "getprop records ''length'' \<noteq> Inr (JNum ''0'')"
          "getprop records ''0'' = Inr record0" "getprop record0 ''Id'' = Inr userId"
          "printable userId"
          by blast
        obtain reply sent3 where post:
          "createPermissionSetAssignment net userId (params ''permissionSetId'')
             baseUrl authHeader sent2 = (reply, sent3)"
          by (cases "createPermissionSetAssignment net userId (params ''permissionSetId'')
                       baseUrl authHeader sent2")
        from query ready(1) have query':
          "findUserByUsername net (params ''username'') baseUrl authHeader sent1
             = (Inr userResponse, sent2)"
          by simp
        from invoke_trace_after_post [OF base auth query' ready(2-9) post] run
        have last: "sent' = sent3"
          by simp
        from createPermissionSetAssignment_sends [of net userId "params ''permissionSetId''"
            baseUrl authHeader sent2] post
        have grows: "sent3 \<noteq> sent2"
          by simp
        from ready(6) have listed: "\<forall>xs. records = JArr xs \<longrightarrow> xs \<noteq> []"
          by auto
        from ready(8) have exists: "\<not> nullish record0"
          by (auto simp: nullish_def)
        from ready post last grows listed exists have "?posted baseUrl authHeader answer sent2"
          by blast
        then show ?thesis ..
      qed
      with base auth query show ?thesis
        by blast
    qed
  qed
next
  assume "getBaseURL (Some params) ctx = Inr baseUrl
       \<and> getAuthorizationHeader net ctx sent = (Inr authHeader, sent1)
       \<and> findUserByUsername net (params ''username'') baseUrl authHeader sent1
           = (Inr userResponse, sent2)
       \<and> (\<not> ok userResponse
          \<or> (\<exists>userResult. json userResponse = Inr userResult
                \<and> (getprop userResult ''records'' = Inr JUndefined
                   \<or> getprop userResult ''records'' = Inr JNull
                   \<or> getprop userResult ''records'' = Inr (JArr []))))"
  then show "\<exists>e. invoke net params ctx sent = (Inl e, sent2)"
    by (auto simp: invoke_def Let_def bind_io_apply)
qed

theorem invoke_assignment_gate_witness:
  "(\<exists>userResponse userResult records record0.
      ok userResponse \<and> json userResponse = Inr userResult
      \<and> getprop userResult ''records'' = Inr records
      \<and> truthy records \<and> (\<forall>xs. records = JArr xs \<longrightarrow> xs \<noteq> [])
      \<and> getprop records ''0'' = Inr record0 \<and> \<not> nullish record0
      \<and> (\<exists>sent1 sent2. findUserByUsername (replay [user_found, assignment_created])
            (sample_params ''username'') ''https://test.my.salesforce.com''
            ''Bearer test-access-token'' sent1 = (Inr userResponse, sent2)
            \<and> snd (invoke (replay [user_found, assignment_created]) sample_params
                      sample_context []) \<noteq> sent2))
   \<and> (\<exists>e sent2. invoke (replay [no_user]) sample_params sample_context [] = (Inl e, sent2))"
proof -
  let ?net = "replay [user_found, assignment_created]"
  have returns: "\<not> isl (fst (invoke ?net sample_params sample_context []))"
    by code_simp
  have run: "invoke ?net sample_params sample_context []
               = (fst (invoke ?net sample_params sample_context []),
                  snd (invoke ?net sample_params sample_context []))"
    by simp
  have returned: "fst (invoke ?net sample_params sample_context []) \<noteq> Inl e" for e
    using returns by auto
  from invoke_assignment_gate [THEN conjunct1, rule_format, OF run] returned
  obtain baseUrl authHeader sent1 sent2 userResponse userResult records record0 where found:
    "getBaseURL (Some sample_params) sample_context = Inr baseUrl"
    "getAuthorizationHeader ?net sample_context [] = (Inr authHeader, sent1)"
    "findUserByUsername ?net (sample_params ''username'') baseUrl authHeader sent1
       = (Inr userResponse, sent2)"
    "ok userResponse" "json userResponse = Inr userResult"
    "getprop userResult ''records'' = Inr records"
    "truthy records" "\<forall>xs. records = JArr xs \<longrightarrow> xs \<noteq> []"
    "getprop records ''0'' = Inr record0" "\<not> nullish record0"
    "snd (invoke ?net sample_params sample_context []) \<noteq> sent2"
    by blast
  from found(1,2) have "baseUrl = ''https://test.my.salesforce.com''"
    "authHeader = ''Bearer test-access-token''"
    by (simp_all add: sample_base sample_auth)
  with found have posted: "\<exists>userResponse userResult records record0.
      ok userResponse \<and> json userResponse = Inr userResult
      \<and> getprop userResult ''records'' = Inr records
      \<and> truthy records \<and> (\<forall>xs. records = JArr xs \<longrightarrow> xs \<noteq> [])
      \<and> getprop records ''0'' = Inr record0 \<and> \<not> nullish record0
      \<and> (\<exists>sent1 sent2. findUserByUsername ?net
            (sample_params ''username'') ''https://test.my.salesforce.com''
            ''Bearer test-access-token'' sent1 = (Inr userResponse, sent2)
            \<and> snd (invoke ?net sample_params sample_context []) \<noteq> sent2)"
    by blast
  obtain req where query:
    "findUserByUsername (replay [no_user]) (sample_params ''username'')
       ''https://test.my.salesforce.com'' ''Bearer test-access-token'' [] = (Inr no_user, [req])"
    using sample_query by blast
  have "json no_user = Inr (JObj [(''totalSize'', JNum ''0''), (''done'', JBool True),
                                  (''records'', JArr [])])"
    by (simp add: no_user_def json_response_def)
  then have empty: "\<exists>userResult. json no_user = Inr userResult
      \<and> (getprop userResult ''records'' = Inr JUndefined
         \<or> getprop userResult ''records'' = Inr JNull
         \<or> getprop userResult ''records'' = Inr (JArr []))"
    by simp
  have stopped: "\<exists>e sent2. invoke (replay [no_user]) sample_params sample_context []
                   = (Inl e, sent2)"
    using invoke_assignment_gate [THEN conjunct2, rule_format, of sample_params sample_context
        "''https://test.my.salesforce.com''" "replay [no_user]" "[]"
        "''Bearer test-access-token''" "[]" no_user "[req]"]
      sample_base sample_auth query empty
    by blast
  from posted stopped show ?thesis
    by blast
qed

text \<open>
  The claim as it is written fails where the records of the answer are not a list: an
  object with a property \<^verbatim>\<open>0\<close> passes the test of the code, which reads a first element
  and a length, and the assignment request is sent.
\<close>

theorem invoke_assignment_gate_counterexample:
  "ok records_object
   \<and> json records_object
       = Inr (JObj [(''records'', JObj [(''0'', JObj [(''Id'', JStr ''005000000000001'')])])])
   \<and> map http_method
         (snd (invoke (replay [records_object, assignment_created]) sample_params sample_context []))
       = [''GET'', ''POST'']
   \<and> url (last (snd (invoke (replay [records_object, assignment_created]) sample_params
                         sample_context [])))
       = ''https://test.my.salesforce.com/services/data/v61.0/sobjects/PermissionSetAssignment''
   \<and> \<not> isl (fst (invoke (replay [records_object, assignment_created]) sample_params
                        sample_context []))"
  by code_simp

section \<open>The fields of the result\<close>

text \<open>
  C8. When \<^verbatim>\<open>invoke\<close> returns a result, its username and its permission-set id are those
  of the parameters (\<^verbatim>\<open>undefined\<close> for one that is missing), and its user id is the Id of
  the first record of the answer to the user query. The records after the first do not
  matter: two runs that differ only in the network, where both networks give the same
  header, answer the query with ok responses whose record lists have the same first
  record, and answer alike after the query, end alike.
\<close>

theorem invoke_result_fields:
  "(invoke net params ctx sent = (Inr r, sent') \<longrightarrow>
      getprop r ''username'' = Inr (js_of (params ''username''))
      \<and> getprop r ''permissionSetId'' = Inr (js_of (params ''permissionSetId''))
      \<and> (\<exists>baseUrl authHeader sent1 userResponse sent2 userResult records record0 userId.
            getBaseURL (Some params) ctx = Inr baseUrl
            \<and> getAuthorizationHeader net ctx sent = (Inr authHeader, sent1)
            \<and> findUserByUsername net (params ''username'') baseUrl authHeader sent1
                = (Inr userResponse, sent2)
            \<and> json userResponse = Inr userResult
            \<and> getprop userResult ''records'' = Inr records
            \<and> getprop records ''0'' = Inr record0
            \<and> getprop record0 ''Id'' = Inr userId
            \<and> getprop r ''userId'' = Inr userId))
   \<and> (getBaseURL (Some params) ctx = Inr baseUrl
       \<and> getAuthorizationHeader net ctx sent = (Inr authHeader, sent1)
       \<and> getAuthorizationHeader net' ctx sent = (Inr authHeader, sent1)
       \<and> findUserByUsername net (params ''username'') baseUrl authHeader sent1
           = (Inr userResponse, sent2)
       \<and> findUserByUsername net' (params ''username'') baseUrl authHeader sent1
           = (Inr userResponse', sent2)
       \<and> ok userResponse \<and> ok userResponse'
       \<and> json userResponse = Inr userResult \<and> json userResponse' = Inr userResult'
       \<and> getprop userResult ''records'' = Inr (JArr (record0 # others))
       \<and> getprop userResult' ''records'' = Inr (JArr (record0 # others'))
       \<and> (\<forall>req. net' sent2 req = net sent2 req)
      \<longrightarrow> invoke net' params ctx sent = invoke net params ctx sent)"
proof (intro conjI impI)
  assume run: "invoke net params ctx sent = (Inr r, sent')"
  obtain baseUrl where base: "getBaseURL (Some params) ctx = Inr baseUrl"
    using run invoke_fails_early(1) [of params ctx _ net sent]
    by (cases "getBaseURL (Some params) ctx") auto
  obtain authHeader sent1 where auth:
    "getAuthorizationHeader net ctx sent = (Inr authHeader, sent1)"
    using run invoke_fails_early(2) [OF base, of net sent]
    by (cases "getAuthorizationHeader net ctx sent"; cases "fst (getAuthorizationHeader net ctx sent)")
       auto
  obtain answer sent2 where query:
    "findUserByUsername net (params ''username'') baseUrl authHeader sent1 = (answer, sent2)"
    by (cases "findUserByUsername net (params ''username'') baseUrl authHeader sent1")
  have "\<exists>userResponse userResult records record0 userId.
             answer = Inr userResponse \<and> ok userResponse
             \<and> json userResponse = Inr userResult
             \<and> getprop userResult ''records'' = Inr records
             \<and> truthy records \<and> getprop records ''length'' \<noteq> Inr (JNum ''0'')
             \<and> getprop records ''0'' = Inr record0
             \<and> getprop record0 ''Id'' = Inr userId
             \<and> printable userId"
  proof (rule ccontr)
    assume unready: "\<not> (\<exists>userResponse userResult records record0 userId.
             answer = Inr userResponse \<and> ok userResponse
             \<and> json userResponse = Inr userResult
             \<and> getprop userResult ''records'' = Inr records
             \<and> truthy records \<and> getprop records ''length'' \<noteq> Inr (JNum ''0'')
             \<and> getprop records ''0'' = Inr record0
             \<and> getprop record0 ''Id'' = Inr userId
             \<and> printable userId)"
    from invoke_stops_after_query [OF base auth query unready] run show False
      by simp
  qed
  then obtain userResponse userResult records record0 userId where ready:
    "answer = Inr userResponse" "ok userResponse" "json userResponse = Inr userResult"
    "getprop userResult ''records'' = Inr records"
    "truthy records" "getprop records ''length'' \<noteq> Inr (JNum ''0'')"
    "getprop records ''0'' = Inr record0" "getprop record0 ''Id'' = Inr userId"
    "printable userId"
    by blast
  from query ready(1) have query':
    "findUserByUsername net (params ''username'') baseUrl authHeader sent1
       = (Inr userResponse, sent2)"
    by simp
  from invoke_result_shape [OF base auth query' ready(2-9)] run
  have fields: "getprop r ''username'' = Inr (js_of (params ''username''))"
    "getprop r ''permissionSetId'' = Inr (js_of (params ''permissionSetId''))"
    "getprop r ''userId'' = Inr userId"
    by simp_all
  from fields show "getprop r ''username'' = Inr (js_of (params ''username''))"
    by simp
  from fields show "getprop r ''permissionSetId'' = Inr (js_of (params ''permissionSetId''))"
    by simp
  from base auth query' ready fields
  show "\<exists>baseUrl authHeader sent1 userResponse sent2 userResult records record0 userId.
            getBaseURL (Some params) ctx = Inr baseUrl
            \<and> getAuthorizationHeader net ctx sent = (Inr authHeader, sent1)
            \<and> findUserByUsername net (params ''username'') baseUrl authHeader sent1
                = (Inr userResponse, sent2)
            \<and> json userResponse = Inr userResult
            \<and> getprop userResult ''records'' = Inr records
            \<and> getprop records ''0'' = Inr record0
            \<and> getprop record0 ''Id'' = Inr userId
            \<and> getprop r ''userId'' = Inr userId"
    by blast
next
  assume "getBaseURL (Some params) ctx = Inr baseUrl
       \<and> getAuthorizationHeader net ctx sent = (Inr authHeader, sent1)
       \<and> getAuthorizationHeader net' ctx sent = (Inr authHeader, sent1)
       \<and> findUserByUsername net (params ''username'') baseUrl authHeader sent1
           = (Inr userResponse, sent2)
       \<and> findUserByUsername net' (params ''username'') baseUrl authHeader sent1
           = (Inr userResponse', sent2)
       \<and> ok userResponse \<and> ok userResponse'
       \<and> json userResponse = Inr userResult \<and> json userResponse' = Inr userResult'
       \<and> getprop userResult ''records'' = Inr (JArr (record0 # others))
       \<and> getprop userResult' ''records'' = Inr (JArr (record0 # others'))
       \<and> (\<forall>req. net' sent2 req = net sent2 req)"
  then show "invoke net' params ctx sent = invoke net params ctx sent"
    by (simp add: invoke_def Let_def bind_io_apply createPermissionSetAssignment_def
             split: sum.splits)
qed

theorem invoke_result_fields_witness:
  "(\<exists>r sent'. invoke (replay [two_users, assignment_created]) sample_params sample_context []
                  = (Inr r, sent')
       \<and> getprop r ''username'' = Inr (JStr ''test.user@example.com'')
       \<and> getprop r ''permissionSetId'' = Inr (JStr ''0PS000000000001'')
       \<and> getprop r ''userId'' = Inr (JStr ''005000000000001''))
   \<and> invoke (replay [two_users, assignment_created]) sample_params sample_context []
       = invoke (replay [user_found, assignment_created]) sample_params sample_context []"
proof -
  let ?net = "replay [user_found, assignment_created]"
  let ?net' = "replay [two_users, assignment_created]"
  have returns: "\<exists>r sent'. invoke ?net' sample_params sample_context [] = (Inr r, sent')"
  proof -
    have "\<not> isl (fst (invoke ?net' sample_params sample_context []))"
      by code_simp
    then show ?thesis
      by (cases "invoke ?net' sample_params sample_context []";
          cases "fst (invoke ?net' sample_params sample_context [])") auto
  qed
  then obtain r sent' where run: "invoke ?net' sample_params sample_context [] = (Inr r, sent')"
    by blast
  obtain req where query:
    "findUserByUsername ?net (sample_params ''username'')
       ''https://test.my.salesforce.com'' ''Bearer test-access-token'' [] = (Inr user_found, [req])"
    "findUserByUsername ?net' (sample_params ''username'')
       ''https://test.my.salesforce.com'' ''Bearer test-access-token'' [] = (Inr two_users, [req])"
    by (simp add: findUserByUsername_def Let_def replay_def)
  have two: "ok two_users"
    "json two_users = Inr (JObj [(''records'', JArr [JObj [(''Id'', JStr ''005000000000001'')],
                                                     JObj [(''Id'', JStr ''005000000000002'')]])])"
    by (simp_all add: two_users_def json_response_def)
  have lists:
    "getprop (JObj [(''records'', JArr [JObj [(''Id'', JStr ''005000000000001'')]])]) ''records''
       = Inr (JArr (JObj [(''Id'', JStr ''005000000000001'')] # []))"
    "getprop (JObj [(''records'', JArr [JObj [(''Id'', JStr ''005000000000001'')],
                                        JObj [(''Id'', JStr ''005000000000002'')]])]) ''records''
       = Inr (JArr (JObj [(''Id'', JStr ''005000000000001'')]
                    # [JObj [(''Id'', JStr ''005000000000002'')]]))"
    by simp_all
  have after: "\<forall>q. ?net' [req] q = ?net [req] q"
    by (simp add: replay_def)
  have names: "sample_params ''username'' = Some ''test.user@example.com''"
    "sample_params ''permissionSetId'' = Some ''0PS000000000001''"
    by (simp_all add: sample_params_def)
  from invoke_result_fields [THEN conjunct1, rule_format, OF run]
  have fields: "getprop r ''username'' = Inr (JStr ''test.user@example.com'')"
    "getprop r ''permissionSetId'' = Inr (JStr ''0PS000000000001'')"
    "getprop r ''userId'' = Inr (JStr ''005000000000001'')"
    using query(2) two lists(2)
    by (auto simp: names js_of_def sample_base sample_auth)
  have same: "invoke ?net' sample_params sample_context []
                = invoke ?net sample_params sample_context []"
    using invoke_result_fields [THEN conjunct2, rule_format,
        of sample_params sample_context "''https://test.my.salesforce.com''" ?net "[]"
           "''Bearer test-access-token''" "[]" ?net' user_found "[req]" two_users]
      sample_base sample_auth query user_found_facts two lists after
    by blast
  from run fields same show ?thesis
    by blast
qed

end
